theory Spec2Isabelle
  imports Complex_Main
begin

section \<open>JavaScript numbers\<close>

text \<open>
  A JavaScript number is \<open>NaN\<close>, one of the two infinities, or a finite value. Finite
  values are idealised as real numbers: rounding to the nearest double and overflow to
  an infinity are not modelled, and the literals \<open>359.9\<close> and \<open>0.1\<close> stand for
  the exact decimal fractions. The two zeros are one value \<open>Fin 0\<close>: the component
  never divides by a variable and never inspects the sign of a zero. The numbered
  properties below hold of the formulas as the code evaluates them: none of them rests
  on an exact sum of rounded spans, or on \<open>validRadius - 1\<close> being below
  \<open>validRadius\<close> at magnitudes where doubles have no odd integers.
\<close>

datatype jsnum = NaN | NInf | Fin real | PInf

fun isNaN :: "jsnum \<Rightarrow> bool" where
  "isNaN NaN = True"
| "isNaN _ = False"

text \<open>The global \<open>isFinite\<close> on a number.\<close>

fun isFinite :: "jsnum \<Rightarrow> bool" where
  "isFinite (Fin _) = True"
| "isFinite _ = False"

text \<open>Truthiness of a number: \<open>NaN\<close> and zero are falsy.\<close>

fun truthy :: "jsnum \<Rightarrow> bool" where
  "truthy NaN = False"
| "truthy (Fin v) = (v \<noteq> 0)"
| "truthy _ = True"

fun jneg :: "jsnum \<Rightarrow> jsnum" where
  "jneg NaN = NaN"
| "jneg NInf = PInf"
| "jneg PInf = NInf"
| "jneg (Fin v) = Fin (- v)"

text \<open>\<open>a + b\<close>\<close>

fun jadd :: "jsnum \<Rightarrow> jsnum \<Rightarrow> jsnum" where
  "jadd NaN _ = NaN"
| "jadd _ NaN = NaN"
| "jadd PInf NInf = NaN"
| "jadd NInf PInf = NaN"
| "jadd PInf _ = PInf"
| "jadd _ PInf = PInf"
| "jadd NInf _ = NInf"
| "jadd _ NInf = NInf"
| "jadd (Fin a) (Fin b) = Fin (a + b)"

text \<open>\<open>a - b\<close>\<close>

definition jsub :: "jsnum \<Rightarrow> jsnum \<Rightarrow> jsnum" where
  "jsub a b = jadd a (jneg b)"

text \<open>The infinity with the sign of a non-zero real.\<close>

definition inf_of_sign :: "real \<Rightarrow> jsnum" where
  "inf_of_sign v = (if v = 0 then NaN else if 0 < v then PInf else NInf)"

text \<open>\<open>a * b\<close>: an infinity times zero is \<open>NaN\<close>.\<close>

fun jmul :: "jsnum \<Rightarrow> jsnum \<Rightarrow> jsnum" where
  "jmul NaN _ = NaN"
| "jmul _ NaN = NaN"
| "jmul (Fin a) (Fin b) = Fin (a * b)"
| "jmul (Fin a) PInf = inf_of_sign a"
| "jmul (Fin a) NInf = inf_of_sign (- a)"
| "jmul PInf (Fin b) = inf_of_sign b"
| "jmul NInf (Fin b) = inf_of_sign (- b)"
| "jmul PInf PInf = PInf"
| "jmul NInf NInf = PInf"
| "jmul PInf NInf = NInf"
| "jmul NInf PInf = NInf"

text \<open>
  \<open>a / b\<close>. The component divides by the literals \<open>100\<close>, \<open>2\<close> and \<open>180\<close> only; a
  zero divisor is read as \<open>+0\<close>.
\<close>

fun jdiv :: "jsnum \<Rightarrow> jsnum \<Rightarrow> jsnum" where
  "jdiv NaN _ = NaN"
| "jdiv _ NaN = NaN"
| "jdiv (Fin a) (Fin b) = (if b = 0 then inf_of_sign a else Fin (a / b))"
| "jdiv (Fin a) PInf = Fin 0"
| "jdiv (Fin a) NInf = Fin 0"
| "jdiv PInf (Fin b) = (if 0 \<le> b then PInf else NInf)"
| "jdiv NInf (Fin b) = (if 0 \<le> b then NInf else PInf)"
| "jdiv _ _ = NaN"

text \<open>\<open>a < b\<close>: every comparison with \<open>NaN\<close> is false.\<close>

fun jlt :: "jsnum \<Rightarrow> jsnum \<Rightarrow> bool" where
  "jlt NaN _ = False"
| "jlt _ NaN = False"
| "jlt _ NInf = False"
| "jlt PInf _ = False"
| "jlt NInf _ = True"
| "jlt _ PInf = True"
| "jlt (Fin a) (Fin b) = (a < b)"

text \<open>\<open>a <= b\<close>\<close>

fun jle :: "jsnum \<Rightarrow> jsnum \<Rightarrow> bool" where
  "jle NaN _ = False"
| "jle _ NaN = False"
| "jle NInf _ = True"
| "jle _ PInf = True"
| "jle PInf _ = False"
| "jle _ NInf = False"
| "jle (Fin a) (Fin b) = (a \<le> b)"

text \<open>\<open>a > b\<close> and \<open>a >= b\<close>\<close>

definition jgt :: "jsnum \<Rightarrow> jsnum \<Rightarrow> bool" where
  "jgt a b = jlt b a"

definition jge :: "jsnum \<Rightarrow> jsnum \<Rightarrow> bool" where
  "jge a b = jle b a"

text \<open>\<open>Math.min\<close> and \<open>Math.max\<close> of two numbers: \<open>NaN\<close> if either is.\<close>

definition Math_min :: "jsnum \<Rightarrow> jsnum \<Rightarrow> jsnum" where
  "Math_min a b = (if isNaN a \<or> isNaN b then NaN else if jle a b then a else b)"

definition Math_max :: "jsnum \<Rightarrow> jsnum \<Rightarrow> jsnum" where
  "Math_max a b = (if isNaN a \<or> isNaN b then NaN else if jle a b then b else a)"

text \<open>\<open>Math.cos\<close>, \<open>Math.sin\<close> (\<open>NaN\<close> outside the finite numbers) and \<open>Math.PI\<close>.\<close>

fun Math_cos :: "jsnum \<Rightarrow> jsnum" where
  "Math_cos (Fin v) = Fin (cos v)"
| "Math_cos _ = NaN"

fun Math_sin :: "jsnum \<Rightarrow> jsnum" where
  "Math_sin (Fin v) = Fin (sin v)"
| "Math_sin _ = NaN"

definition Math_PI :: jsnum where
  "Math_PI = Fin pi"

text \<open>
  \<open>v || d\<close> on a number, and on an optional number: a prop that is missing
  (\<open>undefined\<close>) is \<open>None\<close>.
\<close>

definition numOr :: "jsnum \<Rightarrow> jsnum \<Rightarrow> jsnum" where
  "numOr v d = (if truthy v then v else d)"

fun orNum :: "jsnum option \<Rightarrow> jsnum \<Rightarrow> jsnum" where
  "orNum None d = d"
| "orNum (Some v) d = numOr v d"

text \<open>
  Truthiness of an optional string (\<open>undefined\<close> and the empty string are falsy),
  and \<open>s || d\<close> on it.
\<close>

fun truthyStr :: "string option \<Rightarrow> bool" where
  "truthyStr None = False"
| "truthyStr (Some s) = (s \<noteq> [])"

fun orStr :: "string option \<Rightarrow> string \<Rightarrow> string" where
  "orStr None d = d"
| "orStr (Some s) d = (if s = [] then d else s)"

text \<open>
  The sum of a list of numbers, added from \<open>0\<close> along the list as the statement
  \<open>startValue += percentage\<close> does.
\<close>

definition jsum :: "jsnum list \<Rightarrow> jsnum" where
  "jsum xs = foldl jadd (Fin 0) xs"

section \<open>Geometry engine\<close>

text \<open>
  A path string is modelled by the list of its commands: the template literal
  \<^verbatim>\<open>M ${x} ${y} A ${r} ${r} 0 ${f} 0 ${ex} ${ey}\<close> is a move followed by one arc, and
  the literal \<^verbatim>\<open>'M 0 0'\<close> is the single move to the origin. An arc carries its two
  radii, the x-axis rotation, the large-arc flag, the sweep flag and its end point.
\<close>

datatype pathcmd =
    MoveTo jsnum jsnum
  | ArcTo jsnum jsnum nat nat nat jsnum jsnum

type_synonym path = "pathcmd list"

text \<open>The point \<open>{ x, y }\<close> is a pair.\<close>

definition polarToCartesian :: "jsnum \<Rightarrow> jsnum \<Rightarrow> jsnum \<Rightarrow> jsnum \<Rightarrow> jsnum \<times> jsnum" where
  "polarToCartesian cx cy r angle =
     (if isNaN cx \<or> isNaN cy \<or> isNaN r \<or> isNaN angle then (Fin 0, Fin 0)
      else
        let a = jmul (jsub angle (Fin 90)) (jdiv Math_PI (Fin 180));
            x = jadd cx (jmul r (Math_cos a));
            y = jadd cy (jmul r (Math_sin a))
        in (if isNaN x then Fin 0 else x, if isNaN y then Fin 0 else y))"

definition describeArc :: "jsnum \<Rightarrow> jsnum \<Rightarrow> jsnum \<Rightarrow> jsnum \<Rightarrow> jsnum \<Rightarrow> path" where
  "describeArc cx cy r startAngle arcAngle =
     (if isNaN cx \<or> isNaN cy \<or> isNaN r \<or> isNaN startAngle \<or> isNaN arcAngle
      then [MoveTo (Fin 0) (Fin 0)]
      else if jle arcAngle (Fin 0) then [MoveTo (Fin 0) (Fin 0)]
      else if jge arcAngle (Fin 359.9) then
        let topPoint = polarToCartesian cx cy r (Fin 0);
            bottomPoint = polarToCartesian cx cy r (Fin 180)
        in [MoveTo (fst topPoint) (snd topPoint),
            ArcTo r r 0 0 1 (fst bottomPoint) (snd bottomPoint),
            ArcTo r r 0 0 1 (fst topPoint) (snd topPoint)]
      else
        let endAngle = jadd startAngle arcAngle;
            start = polarToCartesian cx cy r endAngle;
            endp = polarToCartesian cx cy r startAngle;
            largeArcFlag = (if jgt arcAngle (Fin 180) then 1 else 0)
        in [MoveTo (fst start) (snd start),
            ArcTo r r 0 largeArcFlag 0 (fst endp) (snd endp)])"

definition getArcAngle :: "jsnum \<Rightarrow> jsnum" where
  "getArcAngle percentage =
     (if isNaN percentage \<or> jlt percentage (Fin 0) then Fin 0
      else Math_min (jmul (jdiv percentage (Fin 100)) (Fin 360)) (Fin 360))"


section \<open>Composition layer\<close>

subsection \<open>Data\<close>

text \<open>
  The \<open>dimensions\<close> object derived by \<open>Pie\<close>, with the source's field names.
\<close>

record dimensions =
  radius :: jsnum
  innerRadius :: jsnum
  width :: jsnum
  dividerSize :: jsnum

text \<open>
  A \<open>Path\<close> element: the attributes \<open>d\<close>, \<open>stroke\<close>, \<open>strokeWidth\<close>,
  \<open>strokeLinecap\<close> (absent on the cleanup circles) and \<open>fill\<close>.
\<close>

record pathElem =
  pe_d :: path
  pe_stroke :: "string option"
  pe_strokeWidth :: jsnum
  pe_strokeLinecap :: "string option"
  pe_fill :: string

text \<open>
  The value of a section's \<open>percentage\<close> field may be of any JavaScript type; the
  types that matter to the \<open>typeof\<close> test are listed.
\<close>

datatype jsval = JNum jsnum | JStr string | JBool bool | JNull | JUndefined

text \<open>
  An entry of the \<open>sections\<close> array, \<open>{ percentage, color }\<close>; a missing
  \<open>color\<close> is \<open>None\<close>. An entry that is \<open>null\<close> or \<open>undefined\<close> is
  \<open>None\<close> in the list.
\<close>

record sectionEntry =
  s_percentage :: jsval
  s_color :: "string option"

text \<open>The entries pushed to \<open>paintedSections\<close>: \<open>{ percentage, color, startAngle, arcAngle }\<close>.\<close>

record paintedSection =
  ps_percentage :: jsnum
  ps_color :: string
  ps_startAngle :: jsnum
  ps_arcAngle :: jsnum

text \<open>
  React keys: the index \<open>idx\<close> of a section arc, and the template strings
  \<^verbatim>\<open>${index}-bg-${i}\<close> and \<^verbatim>\<open>${index}-fg-${i}\<close> of the divider arcs.
\<close>

datatype key = Idx nat | BgKey nat nat | FgKey nat nat

text \<open>
  An \<open>ArcShape\<close> element, that is the props it was created with. \<open>isBezian\<close> is
  false where the element does not pass it.
\<close>

record arcProps =
  ap_key :: key
  ap_dimensions :: dimensions
  ap_color :: "string option"
  ap_startAngle :: jsnum
  ap_arcAngle :: jsnum
  ap_isBezian :: bool
  ap_strokeCap :: "string option"

subsection \<open>ArcShape and Background\<close>

definition ArcShape ::
    "dimensions \<Rightarrow> string option \<Rightarrow> string option \<Rightarrow> jsnum \<Rightarrow> jsnum \<Rightarrow> bool
      \<Rightarrow> pathElem option" where
  "ArcShape dims color cap startAngle arcAngle isBezian =
     (if \<not> truthy (radius dims) \<or> jle (radius dims) (Fin 0) then None
      else
        let r = jsub (radius dims) (jdiv (width dims) (Fin 2)) in
        if jle r (Fin 0) then None
        else
          let pathData = describeArc (radius dims) (radius dims) r
                           (numOr startAngle (Fin 0)) (numOr arcAngle (Fin 0));
              strokeWidth = (if isBezian then jmul (numOr arcAngle (Fin 0)) (Fin 5)
                             else width dims)
          in Some \<lparr> pe_d = pathData,
                    pe_stroke = Some (orStr color ''#000''),
                    pe_strokeWidth = Math_max strokeWidth (Fin 0),
                    pe_strokeLinecap = Some (orStr cap ''butt''),
                    pe_fill = ''none'' \<rparr>)"

text \<open>What React draws for an \<open>ArcShape\<close> element.\<close>

definition renderArc :: "arcProps \<Rightarrow> pathElem option" where
  "renderArc e = ArcShape (ap_dimensions e) (ap_color e) (ap_strokeCap e)
                   (ap_startAngle e) (ap_arcAngle e) (ap_isBezian e)"

definition Background :: "dimensions \<Rightarrow> string option \<Rightarrow> pathElem option" where
  "Background dims color = ArcShape dims color None (Fin 0) (Fin 360) False"

subsection \<open>Sections\<close>

definition shouldShowDivider :: "'a list \<Rightarrow> jsnum \<Rightarrow> bool" where
  "shouldShowDivider secs dsize = (length secs > 1 \<and> \<not> isNaN dsize \<and> jgt dsize (Fin 0))"

text \<open>
  The number held by a value of type number. It is read behind the \<open>typeof\<close> test
  only, and on the entries that passed it.
\<close>

fun numberOf :: "jsval \<Rightarrow> jsnum" where
  "numberOf (JNum n) = n"
| "numberOf _ = NaN"

fun typeof_number :: "jsval \<Rightarrow> bool" where
  "typeof_number (JNum n) = True"
| "typeof_number _ = False"

text \<open>The predicate of \<open>sections.filter\<close>.\<close>

fun isValidSection :: "sectionEntry option \<Rightarrow> bool" where
  "isValidSection None = False"
| "isValidSection (Some s) =
     (typeof_number (s_percentage s) \<and>
      \<not> isNaN (numberOf (s_percentage s)) \<and>
      jgt (numberOf (s_percentage s)) (Fin 0) \<and>
      truthyStr (s_color s))"

text \<open>
  The destructuring \<open>const { percentage, color } = section\<close> of an entry that passed the
  filter: its percentage is a number and its colour a non-empty string.
\<close>

fun percentageOf :: "sectionEntry option \<Rightarrow> jsnum" where
  "percentageOf None = NaN"
| "percentageOf (Some s) = numberOf (s_percentage s)"

fun colorOf :: "sectionEntry option \<Rightarrow> string" where
  "colorOf None = []"
| "colorOf (Some s) = orStr (s_color s) []"

text \<open>
  The object \<open>arcProps\<close> built for the section at index \<open>idx\<close>, from its colour, the
  running \<open>startAngle\<close> and its \<open>arcAngle\<close>; and the object pushed to
  \<open>paintedSections\<close>.
\<close>

definition arcPropsOf ::
    "dimensions \<Rightarrow> bool \<Rightarrow> string \<Rightarrow> nat \<Rightarrow> string \<Rightarrow> jsnum \<Rightarrow> jsnum \<Rightarrow> arcProps" where
  "arcPropsOf dims showDividers cap idx color startAngle arcAngle =
     \<lparr> ap_key = Idx idx,
       ap_dimensions = dims,
       ap_color = Some color,
       ap_startAngle = (if showDividers
                        then jadd startAngle (numOr (dividerSize dims) (Fin 0))
                        else startAngle),
       ap_arcAngle = (if showDividers
                      then Math_max (jsub arcAngle (numOr (dividerSize dims) (Fin 0))) (Fin 0.1)
                      else arcAngle),
       ap_isBezian = False,
       ap_strokeCap = Some cap \<rparr>"

definition paintedOf :: "jsnum \<Rightarrow> string \<Rightarrow> jsnum \<Rightarrow> jsnum \<Rightarrow> paintedSection" where
  "paintedOf percentage color startAngle arcAngle =
     \<lparr> ps_percentage = percentage, ps_color = color,
       ps_startAngle = startAngle, ps_arcAngle = arcAngle \<rparr>"

text \<open>
  The callback of \<open>validSections.map\<close>, run over the list from index \<open>idx\<close> on. The
  variable \<open>startValue\<close> and the array \<open>paintedSections\<close> it mutates are passed
  along and returned; a \<open>null\<close> element is \<open>None\<close>.
\<close>

fun walk ::
    "dimensions \<Rightarrow> bool \<Rightarrow> bool \<Rightarrow> string \<Rightarrow> sectionEntry option list \<Rightarrow> nat \<Rightarrow> jsnum
      \<Rightarrow> paintedSection list \<Rightarrow> arcProps option list \<times> paintedSection list" where
  "walk dims showDividers shouldShowRoundDividers cap [] idx startValue painted = ([], painted)"
| "walk dims showDividers shouldShowRoundDividers cap (s # rest) idx startValue painted =
     (let percentage = percentageOf s;
          color = colorOf s;
          startAngle = jmul (jdiv startValue (Fin 100)) (Fin 360);
          arcAngle = getArcAngle percentage;
          startValue' = jadd startValue percentage
      in
        if jlt arcAngle (Fin 0.1) then
          (case walk dims showDividers shouldShowRoundDividers cap rest (Suc idx)
                  startValue' painted of
             (els, painted') \<Rightarrow> (None # els, painted'))
        else
          let arcprops = arcPropsOf dims showDividers cap idx color startAngle arcAngle;
              painted1 = (if shouldShowRoundDividers
                          then painted @ [paintedOf percentage color startAngle arcAngle]
                          else painted)
          in
            (case walk dims showDividers shouldShowRoundDividers cap rest (Suc idx)
                    startValue' painted1 of
               (els, painted') \<Rightarrow> (Some arcprops # els, painted')))"

text \<open>\<open>.filter(Boolean)\<close> on an array of elements and \<open>null\<close>s.\<close>

definition filter_Boolean :: "'a option list \<Rightarrow> 'a list" where
  "filter_Boolean els = map the (filter (\<lambda>e. e \<noteq> None) els)"

text \<open>
  \<open>Sections\<close> returns \<open>null\<close> (\<open>None\<close>) or the array of its \<open>ArcShape\<close>
  elements, together with the \<open>paintedSections\<close> array after its pushes. A missing
  \<open>sections\<close> prop is \<open>None\<close>.
\<close>

definition Sections ::
    "dimensions \<Rightarrow> paintedSection list \<Rightarrow> sectionEntry option list option \<Rightarrow> bool \<Rightarrow> string
      \<Rightarrow> arcProps list option \<times> paintedSection list" where
  "Sections dims painted secs shouldShowRoundDividers cap =
     (case secs of
        None \<Rightarrow> (None, painted)
      | Some xs \<Rightarrow>
          if length xs = 0 then (None, painted)
          else
            let validSections = filter isValidSection xs in
            if length validSections = 0 then (None, painted)
            else
              let showDividers = shouldShowDivider validSections (dividerSize dims) in
              (case walk dims showDividers shouldShowRoundDividers cap validSections 0
                      (Fin 0) painted of
                 (els, painted') \<Rightarrow> (Some (filter_Boolean els), painted')))"

subsection \<open>RoundDividers and CleanUpCircles\<close>

datatype error = RangeError

text \<open>
  \<open>[...Array(n).keys()]\<close>: \<open>Array(n)\<close> throws a \<open>RangeError\<close> unless \<open>n\<close> is an
  integer from \<open>0\<close> to \<open>2\<^sup>3\<^sup>2 - 1\<close>.
\<close>

definition Array_keys :: "jsnum \<Rightarrow> error + nat list" where
  "Array_keys n =
     (case n of
        Fin v \<Rightarrow>
          if v = of_int \<lfloor>v\<rfloor> \<and> 0 \<le> v \<and> v \<le> 4294967295 then Inr [0..<nat \<lfloor>v\<rfloor>]
          else Inl RangeError
      | _ \<Rightarrow> Inl RangeError)"

text \<open>The callback of \<open>paintedSections.flatMap\<close> for the section at \<open>index\<close>.\<close>

definition dividerArcs ::
    "dimensions \<Rightarrow> string option \<Rightarrow> jsnum \<Rightarrow> paintedSection \<Rightarrow> nat \<Rightarrow> error + arcProps list" where
  "dividerArcs dims backgroundColor dividerOffSet sec index =
     (if ps_color sec = [] \<or> isNaN (ps_startAngle sec) \<or> isNaN (ps_arcAngle sec) then Inr []
      else
        (case Array_keys (jadd (dividerSize dims) (Fin 2)) of
           Inl e \<Rightarrow> Inl e
         | Inr ks \<Rightarrow>
             Inr (concat (map (\<lambda>i.
               [\<lparr> ap_key = BgKey index i,
                  ap_dimensions = dims,
                  ap_color = backgroundColor,
                  ap_startAngle =
                    jsub (jadd (jadd (jadd (ps_startAngle sec) (ps_arcAngle sec))
                                  (dividerSize dims)) (Fin (real i))) dividerOffSet,
                  ap_arcAngle = Fin 1,
                  ap_isBezian = True,
                  ap_strokeCap = Some ''butt'' \<rparr>,
                \<lparr> ap_key = FgKey index i,
                  ap_dimensions = dims,
                  ap_color = Some (ps_color sec),
                  ap_startAngle =
                    jsub (jadd (jsub (jadd (ps_startAngle sec) (ps_arcAngle sec))
                                  (dividerSize dims)) (Fin (real i))) dividerOffSet,
                  ap_arcAngle = Fin 1,
                  ap_isBezian = True,
                  ap_strokeCap = Some ''butt'' \<rparr>]) ks))))"

text \<open>\<open>paintedSections.flatMap\<close> from \<open>index\<close> on; the first throw ends it.\<close>

fun flatMapDividers ::
    "dimensions \<Rightarrow> string option \<Rightarrow> jsnum \<Rightarrow> paintedSection list \<Rightarrow> nat
      \<Rightarrow> error + arcProps list" where
  "flatMapDividers dims backgroundColor dividerOffSet [] index = Inr []"
| "flatMapDividers dims backgroundColor dividerOffSet (sec # rest) index =
     (case dividerArcs dims backgroundColor dividerOffSet sec index of
        Inl e \<Rightarrow> Inl e
      | Inr arcs \<Rightarrow>
          (case flatMapDividers dims backgroundColor dividerOffSet rest (Suc index) of
             Inl e \<Rightarrow> Inl e
           | Inr others \<Rightarrow> Inr (arcs @ others)))"

definition RoundDividers ::
    "dimensions \<Rightarrow> paintedSection list \<Rightarrow> string option \<Rightarrow> bool \<Rightarrow> error + arcProps list option" where
  "RoundDividers dims painted backgroundColor visible =
     (let dividerOffSet = jadd (jmul (numOr (dividerSize dims) (Fin 0)) (Fin 2)) (Fin 6) in
      if \<not> (length painted > 1 \<and> visible \<and> jgt (dividerSize dims) (Fin 0)) then Inr None
      else
        (case flatMapDividers dims backgroundColor dividerOffSet painted 0 of
           Inl e \<Rightarrow> Inl e
         | Inr arcs \<Rightarrow> Inr (Some arcs)))"

text \<open>\<open>CleanUpCircles\<close> returns \<open>null\<close> or its two \<open>Path\<close> elements, inner then outer.\<close>

definition CleanUpCircles ::
    "dimensions \<Rightarrow> string option \<Rightarrow> bool \<Rightarrow> (pathElem \<times> pathElem) option" where
  "CleanUpCircles dims backgroundColor visible =
     (if jge (width dims) (Fin 100) \<or> \<not> visible \<or> \<not> truthy (radius dims)
         \<or> \<not> truthy (innerRadius dims) then None
      else
        let innerPath = describeArc (radius dims) (radius dims)
                          (Math_max (jsub (innerRadius dims) (jdiv (width dims) (Fin 2))) (Fin 0))
                          (Fin 0) (Fin 360);
            outerPath = describeArc (radius dims) (radius dims)
                          (jadd (radius dims) (jdiv (width dims) (Fin 2)))
                          (Fin 0) (Fin 360)
        in Some (\<lparr> pe_d = innerPath, pe_stroke = backgroundColor,
                    pe_strokeWidth = width dims, pe_strokeLinecap = None,
                    pe_fill = ''none'' \<rparr>,
                 \<lparr> pe_d = outerPath, pe_stroke = backgroundColor,
                    pe_strokeWidth = width dims, pe_strokeLinecap = None,
                    pe_fill = ''none'' \<rparr>))"

subsection \<open>Pie\<close>

text \<open>
  The props of \<open>Pie\<close>; a prop that is not passed is \<open>None\<close>. The numeric props are
  numbers, as \<open>Pie.propTypes\<close> declares them.
\<close>

record props =
  p_sections :: "sectionEntry option list option"
  p_radius :: "jsnum option"
  p_innerRadius :: "jsnum option"
  p_backgroundColor :: "string option"
  p_strokeCap :: "string option"
  p_dividerSize :: "jsnum option"
  p_showCenterText :: "bool option"
  p_centerValue :: "string option"
  p_centerLabel :: "string option"

text \<open>The prop validation of \<open>Pie\<close>, up to the \<open>dimensions\<close> object.\<close>

definition Pie_dimensions :: "jsnum option \<Rightarrow> jsnum option \<Rightarrow> jsnum option \<Rightarrow> dimensions" where
  "Pie_dimensions rad inner dsize =
     (let validRadius = Math_max (orNum rad (Fin 50)) (Fin 10);
          validInnerRadius = Math_max (orNum inner (Fin 0)) (Fin 0);
          validDividerSize = Math_max (orNum dsize (Fin 0)) (Fin 0);
          finalInnerRadius = Math_min validInnerRadius (jsub validRadius (Fin 1));
          w = jsub validRadius finalInnerRadius
      in \<lparr> radius = validRadius, innerRadius = finalInnerRadius, width = w,
            dividerSize = validDividerSize \<rparr>)"

text \<open>
  The drawing of one render: the size of the \<open>Svg\<close>, then, in drawing order, the
  background, the section arcs, the divider arcs and the cleanup circles, and the
  centre text (value and label) when it is shown.
\<close>

record svg =
  svg_width :: jsnum
  svg_height :: jsnum
  svg_background :: "pathElem option"
  svg_sections :: "arcProps list option"
  svg_dividers :: "arcProps list option"
  svg_cleanup :: "(pathElem \<times> pathElem) option"
  svg_centerText :: "(string \<times> string) option"

text \<open>
  One render of \<open>Pie\<close> with its children rendered in order; a throw in
  \<open>RoundDividers\<close> ends the render.
\<close>

definition Pie :: "props \<Rightarrow> error + svg" where
  "Pie ps =
     (let dims = Pie_dimensions (p_radius ps) (p_innerRadius ps) (p_dividerSize ps);
          strokeCapForLargeBands = (if p_strokeCap ps = Some ''round'' then ''round'' else ''butt'');
          shouldShowRoundDividers = (p_strokeCap ps = Some ''round'');
          paintedSections = []
      in
        (case Sections dims paintedSections (p_sections ps) shouldShowRoundDividers
                strokeCapForLargeBands of
           (arcs, paintedSections') \<Rightarrow>
             (case RoundDividers dims paintedSections' (p_backgroundColor ps)
                     shouldShowRoundDividers of
                Inl e \<Rightarrow> Inl e
              | Inr dividers \<Rightarrow>
                  Inr \<lparr> svg_width = jmul (radius dims) (Fin 2),
                        svg_height = jmul (radius dims) (Fin 2),
                        svg_background = Background dims (p_backgroundColor ps),
                        svg_sections = arcs,
                        svg_dividers = dividers,
                        svg_cleanup = CleanUpCircles dims (p_backgroundColor ps)
                                        shouldShowRoundDividers,
                        svg_centerText =
                          (if p_showCenterText ps = Some True
                           then Some (case p_centerValue ps of None \<Rightarrow> [] | Some v \<Rightarrow> v,
                                      case p_centerLabel ps of None \<Rightarrow> [] | Some l \<Rightarrow> l)
                           else None) \<rparr>)))"

section \<open>Closed forms of the section walk\<close>

text \<open>
  The quantities of the \<open>i\<close>-th entry of a list of sections when the walk enters the
  list with \<open>startValue = sv\<close>: the running start angle (the percentages before it
  added to \<open>sv\<close>, converted to degrees), its arc angle, and whether it is drawn (an
  arc angle below \<open>0.1\<close> is skipped).
\<close>

definition startAngleFrom :: "jsnum \<Rightarrow> sectionEntry option list \<Rightarrow> nat \<Rightarrow> jsnum" where
  "startAngleFrom sv xs i =
     jmul (jdiv (foldl jadd sv (map percentageOf (take i xs))) (Fin 100)) (Fin 360)"

definition arcAngleAt :: "sectionEntry option list \<Rightarrow> nat \<Rightarrow> jsnum" where
  "arcAngleAt xs i = getArcAngle (percentageOf (xs ! i))"

definition drawnAt :: "sectionEntry option list \<Rightarrow> nat \<Rightarrow> bool" where
  "drawnAt xs i = (\<not> jlt (arcAngleAt xs i) (Fin 0.1))"

text \<open>
  The spans of the rendered sections of a \<open>sections\<close> array before the divider
  shrink: the values of \<open>arcAngle\<close> over the valid entries, without those that are
  skipped.
\<close>

definition preShrinkSpans :: "sectionEntry option list \<Rightarrow> jsnum list" where
  "preShrinkSpans xs =
     filter (\<lambda>a. \<not> jlt a (Fin 0.1))
       (map (\<lambda>s. getArcAngle (percentageOf s)) (filter isValidSection xs))"

section \<open>Properties of the geometry engine\<close>

subsection \<open>Points on the circle\<close>

lemma polarToCartesian_Fin:
  "polarToCartesian (Fin a) (Fin b) (Fin c) (Fin t) =
     (Fin (a + c * cos ((t - 90) * (pi / 180))), Fin (b + c * sin ((t - 90) * (pi / 180))))"
  by (simp add: polarToCartesian_def Math_PI_def jsub_def Let_def)

lemma polarToCartesian_top:
  "polarToCartesian (Fin a) (Fin b) (Fin c) (Fin 0) = (Fin a, Fin (b - c))"
  by (simp add: polarToCartesian_def Math_PI_def jsub_def Let_def)

lemma polarToCartesian_bottom:
  "polarToCartesian (Fin a) (Fin b) (Fin c) (Fin 180) = (Fin a, Fin (b + c))"
  by (simp add: polarToCartesian_def Math_PI_def jsub_def Let_def)

lemma isFinite_iff: "isFinite a \<longleftrightarrow> (\<exists>v. a = Fin v)"
  by (cases a) simp_all

subsection \<open>The arc span of a percentage\<close>

lemma getArcAngle_Fin: "getArcAngle (Fin v) = Fin (max 0 (min (v / 100 * 360) 360))"
  by (auto simp: getArcAngle_def Math_min_def)

lemma getArcAngle_not_Fin:
  "getArcAngle NaN = Fin 0" "getArcAngle NInf = Fin 0" "getArcAngle PInf = Fin 360"
  by (auto simp: getArcAngle_def Math_min_def inf_of_sign_def)

text \<open>
  C1. On every number \<open>getArcAngle\<close> returns \<open>0\<close> when the percentage is \<open>NaN\<close> or
  negative and \<open>Math.min(percentage / 100 * 360, 360)\<close> otherwise; on a finite
  percentage that is the value \<open>min (v / 100 * 360) 360\<close> clamped at \<open>0\<close>. The result
  is a number between \<open>0\<close> and \<open>360\<close>: never \<open>NaN\<close>, never negative, never above
  \<open>360\<close>.
\<close>

theorem getArcAngle_clamped:
  "(isNaN p \<or> jlt p (Fin 0) \<longrightarrow> getArcAngle p = Fin 0) \<and>
   (\<not> isNaN p \<and> \<not> jlt p (Fin 0) \<longrightarrow>
      getArcAngle p = Math_min (jmul (jdiv p (Fin 100)) (Fin 360)) (Fin 360)) \<and>
   (\<forall>v. p = Fin v \<longrightarrow> getArcAngle p = Fin (max 0 (min (v / 100 * 360) 360))) \<and>
   \<not> isNaN (getArcAngle p) \<and>
   jge (getArcAngle p) (Fin 0) \<and> \<not> jlt (getArcAngle p) (Fin 0) \<and>
   jle (getArcAngle p) (Fin 360) \<and> \<not> jgt (getArcAngle p) (Fin 360)"
proof (cases p)
  case (Fin v)
  then show ?thesis
    by (auto simp: getArcAngle_Fin jge_def jgt_def) (auto simp: getArcAngle_def Math_min_def)
qed (simp_all add: getArcAngle_not_Fin jge_def jgt_def Math_min_def inf_of_sign_def)

theorem getArcAngle_clamped_witness:
  "getArcAngle (Fin 30) = Fin 108 \<and> getArcAngle (Fin 250) = Fin 360 \<and>
   getArcAngle (Fin (- 5)) = Fin 0 \<and> getArcAngle NaN = Fin 0 \<and>
   getArcAngle NInf = Fin 0 \<and> getArcAngle PInf = Fin 360"
  using getArcAngle_clamped [of "Fin 30"] getArcAngle_clamped [of "Fin 250"]
    getArcAngle_clamped [of "Fin (- 5)"] getArcAngle_clamped [of NaN]
    getArcAngle_clamped [of NInf] getArcAngle_clamped [of PInf]
  by (simp add: Math_min_def inf_of_sign_def)

subsection \<open>The three shapes of a path\<close>

text \<open>
  The guard of \<open>describeArc\<close> tests its arguments with \<open>isNaN\<close>, and an infinity is
  not \<open>NaN\<close>: with an infinite start angle and a span of \<open>90\<close> the path is a move and
  an arc (both end points fall back to the origin), not the placeholder.
\<close>

theorem describeArc_infinite_start_not_placeholder:
  "\<not> isFinite PInf \<and>
   describeArc (Fin 50) (Fin 50) (Fin 25) PInf (Fin 90)
     = [MoveTo (Fin 0) (Fin 0), ArcTo (Fin 25) (Fin 25) 0 0 0 (Fin 0) (Fin 0)] \<and>
   describeArc (Fin 50) (Fin 50) (Fin 25) PInf (Fin 90) \<noteq> [MoveTo (Fin 0) (Fin 0)]"
  by (simp add: describeArc_def polarToCartesian_def Math_PI_def jsub_def Let_def jge_def
      jgt_def inf_of_sign_def)

text \<open>
  C3, amended. \<open>describeArc\<close> is a total function of five numbers (no operation in it
  can throw), and it returns the placeholder path \<open>M 0 0\<close> exactly when an argument
  is \<open>NaN\<close> or the arc span is \<open>\<le> 0\<close> (\<open>-Infinity\<close> included).
\<close>

theorem describeArc_placeholder:
  "describeArc cx cy r startAngle arcAngle = [MoveTo (Fin 0) (Fin 0)] \<longleftrightarrow>
     (isNaN cx \<or> isNaN cy \<or> isNaN r \<or> isNaN startAngle \<or> isNaN arcAngle
      \<or> jle arcAngle (Fin 0))"
  by (simp add: describeArc_def Let_def)

theorem describeArc_placeholder_witness:
  "describeArc NaN (Fin 50) (Fin 25) (Fin 0) (Fin 90) = [MoveTo (Fin 0) (Fin 0)] \<and>
   describeArc (Fin 50) (Fin 50) (Fin 25) (Fin 0) (Fin (- 5)) = [MoveTo (Fin 0) (Fin 0)] \<and>
   describeArc PInf (Fin 50) (Fin 25) (Fin 0) NInf = [MoveTo (Fin 0) (Fin 0)]"
  using describeArc_placeholder [of NaN "Fin 50" "Fin 25" "Fin 0" "Fin 90"]
        describeArc_placeholder [of "Fin 50" "Fin 50" "Fin 25" "Fin 0" "Fin (- 5)"]
        describeArc_placeholder [of PInf "Fin 50" "Fin 25" "Fin 0" NInf]
  by simp

text \<open>
  C5. With finite arguments and an arc span \<open>\<ge> 359.9\<close> the path is a move to the top
  point \<open>(cx, cy - r)\<close> of the circle, an arc of radius \<open>r\<close> to the opposite point
  \<open>(cx, cy + r)\<close> and a second arc of radius \<open>r\<close> back to the top point, both with
  sweep flag \<open>1\<close>: two half circles that close the circle.
\<close>

theorem describeArc_full_circle:
  assumes "isFinite cx" "isFinite cy" "isFinite r" "isFinite startAngle" "isFinite arcAngle"
    and "jge arcAngle (Fin 359.9)"
  shows "\<exists>a b c. cx = Fin a \<and> cy = Fin b \<and> r = Fin c \<and>
           polarToCartesian cx cy r (Fin 0) = (Fin a, Fin (b - c)) \<and>
           polarToCartesian cx cy r (Fin 180) = (Fin a, Fin (b + c)) \<and>
           describeArc cx cy r startAngle arcAngle =
             [MoveTo (Fin a) (Fin (b - c)),
              ArcTo r r 0 0 1 (Fin a) (Fin (b + c)),
              ArcTo r r 0 0 1 (Fin a) (Fin (b - c))]"
proof -
  from assms obtain a b c s w where eqs: "cx = Fin a" "cy = Fin b" "r = Fin c"
      "startAngle = Fin s" "arcAngle = Fin w"
    by (auto simp: isFinite_iff)
  from assms(6) eqs have w: "359.9 \<le> w" by (simp add: jge_def)
  then have "\<not> w \<le> 0" by simp
  with w eqs show ?thesis
    by (simp add: describeArc_def jge_def polarToCartesian_top polarToCartesian_bottom)
qed

theorem describeArc_full_circle_witness:
  "describeArc (Fin 50) (Fin 50) (Fin 25) (Fin 0) (Fin 360) =
     [MoveTo (Fin 50) (Fin 25), ArcTo (Fin 25) (Fin 25) 0 0 1 (Fin 50) (Fin 75),
      ArcTo (Fin 25) (Fin 25) 0 0 1 (Fin 50) (Fin 25)]"
  using describeArc_full_circle [of "Fin 50" "Fin 50" "Fin 25" "Fin 0" "Fin 360"]
  by (simp add: jge_def)

text \<open>
  C9. With finite arguments and an arc span strictly between \<open>0\<close> and \<open>359.9\<close> the
  path is a move to the point of the circle at the end angle followed by exactly one
  arc, of radius \<open>r\<close> and sweep flag \<open>0\<close>, to the point at the start angle; the arc's
  large-arc flag is \<open>1\<close> when the span is greater than \<open>180\<close> and \<open>0\<close> otherwise.
\<close>

theorem describeArc_single_arc:
  assumes "isFinite cx" "isFinite cy" "isFinite r" "isFinite startAngle" "isFinite arcAngle"
    and "jgt arcAngle (Fin 0)" and "jlt arcAngle (Fin 359.9)"
  shows "\<exists>a b c s w. cx = Fin a \<and> cy = Fin b \<and> r = Fin c \<and> startAngle = Fin s \<and>
           arcAngle = Fin w \<and>
           polarToCartesian cx cy r (jadd startAngle arcAngle) =
             (Fin (a + c * cos ((s + w - 90) * (pi / 180))),
              Fin (b + c * sin ((s + w - 90) * (pi / 180)))) \<and>
           polarToCartesian cx cy r startAngle =
             (Fin (a + c * cos ((s - 90) * (pi / 180))),
              Fin (b + c * sin ((s - 90) * (pi / 180)))) \<and>
           describeArc cx cy r startAngle arcAngle =
             [MoveTo (Fin (a + c * cos ((s + w - 90) * (pi / 180))))
                     (Fin (b + c * sin ((s + w - 90) * (pi / 180)))),
              ArcTo r r 0 (if jgt arcAngle (Fin 180) then 1 else 0) 0
                    (Fin (a + c * cos ((s - 90) * (pi / 180))))
                    (Fin (b + c * sin ((s - 90) * (pi / 180))))]"
proof -
  from assms obtain a b c s w where eqs: "cx = Fin a" "cy = Fin b" "r = Fin c"
      "startAngle = Fin s" "arcAngle = Fin w"
    by (auto simp: isFinite_iff)
  from assms(6,7) eqs have w: "0 < w" "w < 359.9" by (simp_all add: jgt_def)
  then have "\<not> w \<le> 0" "\<not> 359.9 \<le> w" by simp_all
  with eqs show ?thesis
    by (simp add: describeArc_def jge_def Let_def polarToCartesian_Fin)
qed

theorem describeArc_single_arc_witness:
  "describeArc (Fin 50) (Fin 50) (Fin 25) (Fin 0) (Fin 270) =
     [MoveTo (Fin 25) (Fin 50), ArcTo (Fin 25) (Fin 25) 0 1 0 (Fin 50) (Fin 25)] \<and>
   describeArc (Fin 50) (Fin 50) (Fin 25) (Fin 0) (Fin 90) =
     [MoveTo (Fin 75) (Fin 50), ArcTo (Fin 25) (Fin 25) 0 0 0 (Fin 50) (Fin 25)]"
  using describeArc_single_arc [of "Fin 50" "Fin 50" "Fin 25" "Fin 0" "Fin 270"]
        describeArc_single_arc [of "Fin 50" "Fin 50" "Fin 25" "Fin 0" "Fin 90"]
  by (simp add: jgt_def)

section \<open>Properties of the prop validation\<close>

text \<open>
  The validated radius is a finite number \<open>\<ge> 10\<close>, or \<open>Infinity\<close> when the prop is;
  the validated inner radius is a finite number \<open>\<ge> 0\<close>, or \<open>Infinity\<close> when the
  prop is.
\<close>

lemma validRadius_cases:
  "(\<exists>R. Math_max (orNum rad (Fin 50)) (Fin 10) = Fin R \<and> 10 \<le> R \<and> rad \<noteq> Some PInf) \<or>
   (Math_max (orNum rad (Fin 50)) (Fin 10) = PInf \<and> rad = Some PInf)"
proof (cases rad)
  case None
  then show ?thesis by (simp add: Math_max_def)
next
  case (Some v)
  then show ?thesis by (cases v) (auto simp: Math_max_def numOr_def)
qed

lemma validInnerRadius_cases:
  "(\<exists>I. Math_max (orNum inner (Fin 0)) (Fin 0) = Fin I \<and> 0 \<le> I \<and> inner \<noteq> Some PInf) \<or>
   (Math_max (orNum inner (Fin 0)) (Fin 0) = PInf \<and> inner = Some PInf)"
proof (cases inner)
  case None
  then show ?thesis by (simp add: Math_max_def)
next
  case (Some v)
  then show ?thesis by (cases v) (auto simp: Math_max_def numOr_def)
qed

lemma Pie_dimensions_finite:
  assumes "rad \<noteq> Some PInf"
  shows "\<exists>R I. 10 \<le> R \<and> 0 \<le> I \<and> I \<le> R - 1 \<and>
           radius (Pie_dimensions rad inner dsize) = Fin R \<and>
           innerRadius (Pie_dimensions rad inner dsize) = Fin I \<and>
           width (Pie_dimensions rad inner dsize) = Fin (R - I)"
proof -
  from assms validRadius_cases [of rad] obtain R
    where R: "Math_max (orNum rad (Fin 50)) (Fin 10) = Fin R" "10 \<le> R" by auto
  from validInnerRadius_cases [of inner] show ?thesis
  proof
    assume "\<exists>I. Math_max (orNum inner (Fin 0)) (Fin 0) = Fin I \<and> 0 \<le> I \<and> inner \<noteq> Some PInf"
    then obtain I where I: "Math_max (orNum inner (Fin 0)) (Fin 0) = Fin I" "0 \<le> I" by auto
    show ?thesis
    proof (cases "I \<le> R - 1")
      case True
      have "Pie_dimensions rad inner dsize =
          \<lparr> radius = Fin R, innerRadius = Fin I, width = Fin (R - I),
            dividerSize = Math_max (orNum dsize (Fin 0)) (Fin 0) \<rparr>"
        using True by (simp add: Pie_dimensions_def Let_def R I Math_min_def jsub_def)
      with R I True show ?thesis by simp
    next
      case False
      have "Pie_dimensions rad inner dsize =
          \<lparr> radius = Fin R, innerRadius = Fin (R - 1), width = Fin (R - (R - 1)),
            dividerSize = Math_max (orNum dsize (Fin 0)) (Fin 0) \<rparr>"
        using False by (simp add: Pie_dimensions_def Let_def R I Math_min_def jsub_def)
      with R show ?thesis by simp
    qed
  next
    assume "Math_max (orNum inner (Fin 0)) (Fin 0) = PInf \<and> inner = Some PInf"
    then have I: "Math_max (orNum inner (Fin 0)) (Fin 0) = PInf" by blast
    have "Pie_dimensions rad inner dsize =
        \<lparr> radius = Fin R, innerRadius = Fin (R - 1), width = Fin (R - (R - 1)),
          dividerSize = Math_max (orNum dsize (Fin 0)) (Fin 0) \<rparr>"
      by (simp add: Pie_dimensions_def Let_def R I Math_min_def jsub_def)
    with R show ?thesis by simp
  qed
qed

lemma Pie_dimensions_infinite:
  "radius (Pie_dimensions (Some PInf) inner dsize) = PInf \<and>
   innerRadius (Pie_dimensions (Some PInf) inner dsize) = Math_max (orNum inner (Fin 0)) (Fin 0) \<and>
   width (Pie_dimensions (Some PInf) inner dsize) \<in> {PInf, NaN}"
  using validInnerRadius_cases [of inner]
  by (auto simp: Pie_dimensions_def Let_def Math_min_def Math_max_def numOr_def jsub_def)

text \<open>
  C4. The normalized outer radius is at least \<open>10\<close> for every input, but the inner
  radius is not always strictly below it. With both \<open>radius\<close> and \<open>innerRadius\<close>
  equal to \<open>Infinity\<close> the subtraction \<open>validRadius - 1\<close> is \<open>Infinity\<close> again, so
  \<open>Math.min\<close> returns \<open>Infinity\<close>: the normalized inner radius equals the outer
  radius, the width is \<open>NaN\<close>, and the code's own comment \<open>Ensure inner radius is
  less than outer radius\<close> is not met.
\<close>

theorem Pie_dimensions_both_infinite:
  "Pie_dimensions (Some PInf) (Some PInf) None =
     \<lparr> radius = PInf, innerRadius = PInf, width = NaN, dividerSize = Fin 0 \<rparr> \<and>
   jge (radius (Pie_dimensions (Some PInf) (Some PInf) None)) (Fin 10) \<and>
   \<not> jlt (innerRadius (Pie_dimensions (Some PInf) (Some PInf) None))
          (radius (Pie_dimensions (Some PInf) (Some PInf) None))"
  by (simp add: Pie_dimensions_def Let_def Math_min_def Math_max_def numOr_def jsub_def jge_def)

text \<open>
  With the dimensions that \<open>Pie\<close> derives, neither guard of \<open>ArcShape\<close> is taken:
  the radius is at least \<open>10\<close> or infinite, and the stroke radius is at least \<open>5\<close>
  or \<open>NaN\<close>.
\<close>

lemma ArcShape_Pie_dimensions:
  "ArcShape (Pie_dimensions rad inner dsize) color cap startAngle arcAngle isBezian \<noteq> None"
proof (cases "rad = Some PInf")
  case False
  from Pie_dimensions_finite [OF this, of inner dsize] obtain R I
    where "10 \<le> R" "0 \<le> I" "I \<le> R - 1"
      "radius (Pie_dimensions rad inner dsize) = Fin R"
      "innerRadius (Pie_dimensions rad inner dsize) = Fin I"
      "width (Pie_dimensions rad inner dsize) = Fin (R - I)" by blast
  then show ?thesis
    by (simp add: ArcShape_def Let_def jsub_def)
next
  case True
  with Pie_dimensions_infinite [of inner dsize] show ?thesis
    by (auto simp: ArcShape_def Let_def jsub_def)
qed

section \<open>Properties of the section walk\<close>

subsection \<open>The walk in closed form\<close>

lemma upt_0_Suc: "[0..<Suc n] = 0 # map Suc [0..<n]"
  by (simp add: upt_conv_Cons map_Suc_upt del: upt_Suc)

lemma startAngleFrom_Cons:
  "startAngleFrom sv (s # rest) (Suc i) = startAngleFrom (jadd sv (percentageOf s)) rest i"
  by (simp add: startAngleFrom_def)

lemma startAngleFrom_0: "startAngleFrom sv xs 0 = jmul (jdiv sv (Fin 100)) (Fin 360)"
  by (simp add: startAngleFrom_def)

lemma arcAngleAt_Cons:
  "arcAngleAt (s # rest) 0 = getArcAngle (percentageOf s)"
  "arcAngleAt (s # rest) (Suc i) = arcAngleAt rest i"
  by (simp_all add: arcAngleAt_def)

lemma drawnAt_Cons:
  "drawnAt (s # rest) 0 = (\<not> jlt (getArcAngle (percentageOf s)) (Fin 0.1))"
  "drawnAt (s # rest) (Suc i) = drawnAt rest i"
  by (simp_all add: drawnAt_def arcAngleAt_def)

lemma walk_fst:
  "fst (walk dims sd rnd cap xs idx sv painted) =
     map (\<lambda>i. if drawnAt xs i
               then Some (arcPropsOf dims sd cap (idx + i) (colorOf (xs ! i))
                            (startAngleFrom sv xs i) (arcAngleAt xs i))
               else None) [0..<length xs]"
proof (induction xs arbitrary: idx sv painted)
  case Nil
  show ?case by simp
next
  case (Cons s rest)
  show ?case
    unfolding upt_0_Suc length_Cons
    by (simp add: Let_def split_beta Cons.IH drawnAt_Cons arcAngleAt_Cons startAngleFrom_Cons
        startAngleFrom_0 o_def del: upt_Suc)
qed

lemma walk_snd:
  "snd (walk dims sd rnd cap xs idx sv painted) =
     painted @ (if rnd
                then map (\<lambda>i. paintedOf (percentageOf (xs ! i)) (colorOf (xs ! i))
                                 (startAngleFrom sv xs i) (arcAngleAt xs i))
                       (filter (drawnAt xs) [0..<length xs])
                else [])"
proof (induction xs arbitrary: idx sv painted rnd)
  case Nil
  show ?case by simp
next
  case (Cons s rest)
  show ?case
    unfolding upt_0_Suc length_Cons
    by (simp add: Let_def split_beta Cons.IH drawnAt_Cons arcAngleAt_Cons startAngleFrom_Cons
        startAngleFrom_0 o_def filter_map del: upt_Suc)
qed

lemma filter_Boolean_map:
  "filter_Boolean (map (\<lambda>i. if P i then Some (f i) else None) xs) = map f (filter P xs)"
  by (induction xs) (simp_all add: filter_Boolean_def)

lemma walk_arcs:
  "filter_Boolean (fst (walk dims sd rnd cap xs idx sv painted)) =
     map (\<lambda>i. arcPropsOf dims sd cap (idx + i) (colorOf (xs ! i))
                 (startAngleFrom sv xs i) (arcAngleAt xs i))
         (filter (drawnAt xs) [0..<length xs])"
  by (simp add: walk_fst filter_Boolean_map)

lemma Sections_valid:
  assumes "filter isValidSection xs \<noteq> []"
  shows "Sections dims painted (Some xs) rnd cap =
     (Some (map (\<lambda>i. arcPropsOf dims
                        (shouldShowDivider (filter isValidSection xs) (dividerSize dims)) cap i
                        (colorOf (filter isValidSection xs ! i))
                        (startAngleFrom (Fin 0) (filter isValidSection xs) i)
                        (arcAngleAt (filter isValidSection xs) i))
              (filter (drawnAt (filter isValidSection xs))
                 [0..<length (filter isValidSection xs)])),
      painted @ (if rnd
                 then map (\<lambda>i. paintedOf (percentageOf (filter isValidSection xs ! i))
                                  (colorOf (filter isValidSection xs ! i))
                                  (startAngleFrom (Fin 0) (filter isValidSection xs) i)
                                  (arcAngleAt (filter isValidSection xs) i))
                        (filter (drawnAt (filter isValidSection xs))
                           [0..<length (filter isValidSection xs)])
                 else []))"
proof -
  from assms have "xs \<noteq> []" by auto
  with assms show ?thesis
    using walk_arcs [of dims _ rnd cap "filter isValidSection xs" 0 "Fin 0" painted]
          walk_snd [of dims _ rnd cap "filter isValidSection xs" 0 "Fin 0" painted]
    by (simp add: Sections_def Let_def split_beta)
qed

lemma Sections_invalid:
  assumes "filter isValidSection xs = []"
  shows "Sections dims painted (Some xs) rnd cap = (None, painted)"
  using assms by (simp add: Sections_def Let_def)

lemma Sections_None: "Sections dims painted None rnd cap = (None, painted)"
  by (simp add: Sections_def)

lemma Sections_filter:
  "Sections dims painted (Some xs) rnd cap =
   Sections dims painted (Some (filter isValidSection xs)) rnd cap"
  by (cases "filter isValidSection xs = []")
     (simp_all add: Sections_valid Sections_invalid)

lemma startAngleFrom_jsum:
  "startAngleFrom (Fin 0) xs i =
     jmul (jdiv (jsum (map percentageOf (take i xs))) (Fin 100)) (Fin 360)"
  by (simp add: startAngleFrom_def jsum_def)

text \<open>Unfolding the definitions to run \<open>Sections\<close> on a concrete array.\<close>

lemmas eval_Sections = Sections_def Let_def shouldShowDivider_def getArcAngle_Fin
  arcPropsOf_def paintedOf_def filter_Boolean_def jgt_def jge_def numOr_def
  Math_max_def Math_min_def jsub_def

subsection \<open>Start angles\<close>

text \<open>
  With \<open>strokeCap = "butt"\<close> and a divider size of \<open>2\<close> the two sections of \<open>50\<close>
  percent are drawn from \<open>2\<close> and from \<open>182\<close>, each spanning \<open>178\<close>: the shift and
  the shrink are switched by the divider size and the number of valid sections, not by
  the stroke cap.
\<close>

theorem butt_cap_positive_divider_shifts:
  "\<not> isl (Pie \<lparr> p_sections = Some [Some \<lparr> s_percentage = JNum (Fin 50), s_color = Some ''red'' \<rparr>,
                                     Some \<lparr> s_percentage = JNum (Fin 50), s_color = Some ''blue'' \<rparr>],
                p_radius = Some (Fin 50), p_innerRadius = Some (Fin 25),
                p_backgroundColor = Some ''#fff'', p_strokeCap = Some ''butt'',
                p_dividerSize = Some (Fin 2), p_showCenterText = None, p_centerValue = None,
                p_centerLabel = None \<rparr>) \<and>
   svg_sections (projr (Pie \<lparr> p_sections = Some [Some \<lparr> s_percentage = JNum (Fin 50), s_color = Some ''red'' \<rparr>,
                                     Some \<lparr> s_percentage = JNum (Fin 50), s_color = Some ''blue'' \<rparr>],
                p_radius = Some (Fin 50), p_innerRadius = Some (Fin 25),
                p_backgroundColor = Some ''#fff'', p_strokeCap = Some ''butt'',
                p_dividerSize = Some (Fin 2), p_showCenterText = None, p_centerValue = None,
                p_centerLabel = None \<rparr>)) =
     Some [\<lparr> ap_key = Idx 0,
              ap_dimensions = \<lparr> radius = Fin 50, innerRadius = Fin 25, width = Fin 25,
                                 dividerSize = Fin 2 \<rparr>,
              ap_color = Some ''red'', ap_startAngle = Fin 2, ap_arcAngle = Fin 178,
              ap_isBezian = False, ap_strokeCap = Some ''butt'' \<rparr>,
           \<lparr> ap_key = Idx 1,
              ap_dimensions = \<lparr> radius = Fin 50, innerRadius = Fin 25, width = Fin 25,
                                 dividerSize = Fin 2 \<rparr>,
              ap_color = Some ''blue'', ap_startAngle = Fin 182, ap_arcAngle = Fin 178,
              ap_isBezian = False, ap_strokeCap = Some ''butt'' \<rparr>]"
  by (simp add: Pie_def Pie_dimensions_def RoundDividers_def eval_Sections)

text \<open>
  C7, amended. The valid sections are walked in list order: the arcs are those of the
  valid entries at indices \<open>0, 1, \<dots>\<close> whose arc angle is at least \<open>0.1\<close>, in that
  order. The running start angle of entry \<open>i\<close> is
  \<open>(p\<^sub>0 + \<dots> + p\<^sub>i\<^sub>-\<^sub>1) / 100 * 360\<close> over the valid entries before it (skipped ones
  included); it is the start angle pushed to \<open>paintedSections\<close> under round caps, and
  the start angle of the arc when no dividers are shown. When dividers are shown (more
  than one valid section and a divider size \<open>> 0\<close>, whatever the stroke cap) the arc
  starts at the running start angle plus the divider size and its span is reduced by
  the divider size, not below \<open>0.1\<close>. In particular \<open>Pie\<close> with the sections
  \<open>[{50, "red"}, {50, "blue"}]\<close> and \<open>strokeCap = "butt"\<close>, for any radius, inner
  radius and colours, and with the divider size missing or \<open>0\<close>, yields exactly two
  arcs, each spanning \<open>180\<close>, the first from \<open>0\<close> and the second from \<open>180\<close>,
  and no dividers.
\<close>

theorem Sections_start_angles:
  "(valid = filter isValidSection xs \<and> valid \<noteq> [] \<longrightarrow>
      Sections dims painted (Some xs) rnd cap =
        (Some (map (\<lambda>i.
                 \<lparr> ap_key = Idx i,
                   ap_dimensions = dims,
                   ap_color = Some (colorOf (valid ! i)),
                   ap_startAngle =
                     (if shouldShowDivider valid (dividerSize dims)
                      then jadd (jmul (jdiv (jsum (map percentageOf (take i valid))) (Fin 100))
                                   (Fin 360))
                             (numOr (dividerSize dims) (Fin 0))
                      else jmul (jdiv (jsum (map percentageOf (take i valid))) (Fin 100))
                             (Fin 360)),
                   ap_arcAngle =
                     (if shouldShowDivider valid (dividerSize dims)
                      then Math_max (jsub (getArcAngle (percentageOf (valid ! i)))
                                       (numOr (dividerSize dims) (Fin 0))) (Fin 0.1)
                      else getArcAngle (percentageOf (valid ! i))),
                   ap_isBezian = False,
                   ap_strokeCap = Some cap \<rparr>)
                 (filter (\<lambda>i. \<not> jlt (getArcAngle (percentageOf (valid ! i))) (Fin 0.1))
                    [0..<length valid])),
         painted @ (if rnd
                    then map (\<lambda>i.
                           \<lparr> ps_percentage = percentageOf (valid ! i),
                             ps_color = colorOf (valid ! i),
                             ps_startAngle =
                               jmul (jdiv (jsum (map percentageOf (take i valid))) (Fin 100))
                                 (Fin 360),
                             ps_arcAngle = getArcAngle (percentageOf (valid ! i)) \<rparr>)
                           (filter (\<lambda>i. \<not> jlt (getArcAngle (percentageOf (valid ! i))) (Fin 0.1))
                              [0..<length valid])
                    else []))) \<and>
   (p_sections ps = Some [Some \<lparr> s_percentage = JNum (Fin 50), s_color = Some ''red'' \<rparr>,
                          Some \<lparr> s_percentage = JNum (Fin 50), s_color = Some ''blue'' \<rparr>] \<and>
    p_strokeCap ps = Some ''butt'' \<and>
    (p_dividerSize ps = None \<or> p_dividerSize ps = Some (Fin 0)) \<and>
    d = Pie_dimensions (p_radius ps) (p_innerRadius ps) (p_dividerSize ps) \<longrightarrow>
      (\<exists>out. Pie ps = Inr out \<and>
         svg_sections out =
           Some [\<lparr> ap_key = Idx 0, ap_dimensions = d, ap_color = Some ''red'',
                    ap_startAngle = Fin 0, ap_arcAngle = Fin 180,
                    ap_isBezian = False, ap_strokeCap = Some ''butt'' \<rparr>,
                 \<lparr> ap_key = Idx 1, ap_dimensions = d, ap_color = Some ''blue'',
                    ap_startAngle = Fin 180, ap_arcAngle = Fin 180,
                    ap_isBezian = False, ap_strokeCap = Some ''butt'' \<rparr>] \<and>
         svg_dividers out = None))"
proof (intro conjI impI)
  assume "valid = filter isValidSection xs \<and> valid \<noteq> []"
  then have v: "valid = filter isValidSection xs" "filter isValidSection xs \<noteq> []" by auto
  have *: "drawnAt valid = (\<lambda>i. \<not> jlt (getArcAngle (percentageOf (valid ! i))) (Fin 0.1))"
    by (rule ext) (simp add: drawnAt_def arcAngleAt_def)
  show "Sections dims painted (Some xs) rnd cap =
        (Some (map (\<lambda>i.
                 \<lparr> ap_key = Idx i,
                   ap_dimensions = dims,
                   ap_color = Some (colorOf (valid ! i)),
                   ap_startAngle =
                     (if shouldShowDivider valid (dividerSize dims)
                      then jadd (jmul (jdiv (jsum (map percentageOf (take i valid))) (Fin 100))
                                   (Fin 360))
                             (numOr (dividerSize dims) (Fin 0))
                      else jmul (jdiv (jsum (map percentageOf (take i valid))) (Fin 100))
                             (Fin 360)),
                   ap_arcAngle =
                     (if shouldShowDivider valid (dividerSize dims)
                      then Math_max (jsub (getArcAngle (percentageOf (valid ! i)))
                                       (numOr (dividerSize dims) (Fin 0))) (Fin 0.1)
                      else getArcAngle (percentageOf (valid ! i))),
                   ap_isBezian = False,
                   ap_strokeCap = Some cap \<rparr>)
                 (filter (\<lambda>i. \<not> jlt (getArcAngle (percentageOf (valid ! i))) (Fin 0.1))
                    [0..<length valid])),
         painted @ (if rnd
                    then map (\<lambda>i.
                           \<lparr> ps_percentage = percentageOf (valid ! i),
                             ps_color = colorOf (valid ! i),
                             ps_startAngle =
                               jmul (jdiv (jsum (map percentageOf (take i valid))) (Fin 100))
                                 (Fin 360),
                             ps_arcAngle = getArcAngle (percentageOf (valid ! i)) \<rparr>)
                           (filter (\<lambda>i. \<not> jlt (getArcAngle (percentageOf (valid ! i))) (Fin 0.1))
                              [0..<length valid])
                    else []))"
    unfolding Sections_valid [OF v(2)] v(1) [symmetric] startAngleFrom_jsum * arcAngleAt_def
      arcPropsOf_def paintedOf_def
    by simp
next
  assume a: "p_sections ps = Some [Some \<lparr> s_percentage = JNum (Fin 50), s_color = Some ''red'' \<rparr>,
                          Some \<lparr> s_percentage = JNum (Fin 50), s_color = Some ''blue'' \<rparr>] \<and>
    p_strokeCap ps = Some ''butt'' \<and>
    (p_dividerSize ps = None \<or> p_dividerSize ps = Some (Fin 0)) \<and>
    d = Pie_dimensions (p_radius ps) (p_innerRadius ps) (p_dividerSize ps)"
  then have ds: "dividerSize d = Fin 0"
    by (auto simp: Pie_dimensions_def Let_def Math_max_def numOr_def)
  have S: "Sections d [] (p_sections ps) False ''butt'' =
      (Some [\<lparr> ap_key = Idx 0, ap_dimensions = d, ap_color = Some ''red'',
                    ap_startAngle = Fin 0, ap_arcAngle = Fin 180,
                    ap_isBezian = False, ap_strokeCap = Some ''butt'' \<rparr>,
                 \<lparr> ap_key = Idx 1, ap_dimensions = d, ap_color = Some ''blue'',
                    ap_startAngle = Fin 180, ap_arcAngle = Fin 180,
                    ap_isBezian = False, ap_strokeCap = Some ''butt'' \<rparr>], [])"
    using a ds
    by (simp add: Sections_def Let_def shouldShowDivider_def jgt_def getArcAngle_Fin
        arcPropsOf_def filter_Boolean_def)
  have R: "RoundDividers d [] (p_backgroundColor ps) False = Inr None"
    by (simp add: RoundDividers_def)
  from a have d: "Pie_dimensions (p_radius ps) (p_innerRadius ps) (p_dividerSize ps) = d" by simp
  from a have sc: "p_strokeCap ps = Some ''butt''" by simp
  show "\<exists>out. Pie ps = Inr out \<and>
         svg_sections out =
           Some [\<lparr> ap_key = Idx 0, ap_dimensions = d, ap_color = Some ''red'',
                    ap_startAngle = Fin 0, ap_arcAngle = Fin 180,
                    ap_isBezian = False, ap_strokeCap = Some ''butt'' \<rparr>,
                 \<lparr> ap_key = Idx 1, ap_dimensions = d, ap_color = Some ''blue'',
                    ap_startAngle = Fin 180, ap_arcAngle = Fin 180,
                    ap_isBezian = False, ap_strokeCap = Some ''butt'' \<rparr>] \<and>
         svg_dividers out = None"
    by (simp add: Pie_def d sc S R)
qed

theorem Sections_start_angles_witness:
  "filter isValidSection
     [Some \<lparr> s_percentage = JNum (Fin 30), s_color = Some ''red'' \<rparr>,
      Some \<lparr> s_percentage = JNum (Fin (- 5)), s_color = Some ''green'' \<rparr>,
      Some \<lparr> s_percentage = JNum (Fin 70), s_color = Some ''blue'' \<rparr>] =
     [Some \<lparr> s_percentage = JNum (Fin 30), s_color = Some ''red'' \<rparr>,
      Some \<lparr> s_percentage = JNum (Fin 70), s_color = Some ''blue'' \<rparr>] \<and>
   Sections \<lparr> radius = Fin 50, innerRadius = Fin 25, width = Fin 25, dividerSize = Fin 0 \<rparr> []
     (Some [Some \<lparr> s_percentage = JNum (Fin 30), s_color = Some ''red'' \<rparr>,
            Some \<lparr> s_percentage = JNum (Fin (- 5)), s_color = Some ''green'' \<rparr>,
            Some \<lparr> s_percentage = JNum (Fin 70), s_color = Some ''blue'' \<rparr>]) True ''round'' =
     (Some [\<lparr> ap_key = Idx 0,
               ap_dimensions = \<lparr> radius = Fin 50, innerRadius = Fin 25, width = Fin 25,
                                  dividerSize = Fin 0 \<rparr>,
               ap_color = Some ''red'', ap_startAngle = Fin 0, ap_arcAngle = Fin 108,
               ap_isBezian = False, ap_strokeCap = Some ''round'' \<rparr>,
            \<lparr> ap_key = Idx 1,
               ap_dimensions = \<lparr> radius = Fin 50, innerRadius = Fin 25, width = Fin 25,
                                  dividerSize = Fin 0 \<rparr>,
               ap_color = Some ''blue'', ap_startAngle = Fin 108, ap_arcAngle = Fin 252,
               ap_isBezian = False, ap_strokeCap = Some ''round'' \<rparr>],
      [\<lparr> ps_percentage = Fin 30, ps_color = ''red'', ps_startAngle = Fin 0,
          ps_arcAngle = Fin 108 \<rparr>,
       \<lparr> ps_percentage = Fin 70, ps_color = ''blue'', ps_startAngle = Fin 108,
          ps_arcAngle = Fin 252 \<rparr>]) \<and>
   (\<exists>out. Pie \<lparr> p_sections = Some [Some \<lparr> s_percentage = JNum (Fin 50), s_color = Some ''red'' \<rparr>,
                          Some \<lparr> s_percentage = JNum (Fin 50), s_color = Some ''blue'' \<rparr>],
                p_radius = Some (Fin 50), p_innerRadius = Some (Fin 25),
                p_backgroundColor = Some ''#fff'', p_strokeCap = Some ''butt'',
                p_dividerSize = None, p_showCenterText = None, p_centerValue = None,
                p_centerLabel = None \<rparr> = Inr out \<and>
      svg_sections out =
        Some [\<lparr> ap_key = Idx 0,
                 ap_dimensions = \<lparr> radius = Fin 50, innerRadius = Fin 25, width = Fin 25,
                                    dividerSize = Fin 0 \<rparr>,
                 ap_color = Some ''red'', ap_startAngle = Fin 0, ap_arcAngle = Fin 180,
                 ap_isBezian = False, ap_strokeCap = Some ''butt'' \<rparr>,
              \<lparr> ap_key = Idx 1,
                 ap_dimensions = \<lparr> radius = Fin 50, innerRadius = Fin 25, width = Fin 25,
                                    dividerSize = Fin 0 \<rparr>,
                 ap_color = Some ''blue'', ap_startAngle = Fin 180, ap_arcAngle = Fin 180,
                 ap_isBezian = False, ap_strokeCap = Some ''butt'' \<rparr>])"
proof -
  have d0: "Pie_dimensions (Some (Fin 50)) (Some (Fin 25)) None =
      \<lparr> radius = Fin 50, innerRadius = Fin 25, width = Fin 25, dividerSize = Fin 0 \<rparr>"
    by (simp add: Pie_dimensions_def Let_def Math_max_def Math_min_def numOr_def jsub_def)
  show ?thesis
    using Sections_start_angles [where
        valid = "[Some \<lparr> s_percentage = JNum (Fin 30), s_color = Some ''red'' \<rparr>,
                  Some \<lparr> s_percentage = JNum (Fin 70), s_color = Some ''blue'' \<rparr>]"
        and xs = "[Some \<lparr> s_percentage = JNum (Fin 30), s_color = Some ''red'' \<rparr>,
            Some \<lparr> s_percentage = JNum (Fin (- 5)), s_color = Some ''green'' \<rparr>,
            Some \<lparr> s_percentage = JNum (Fin 70), s_color = Some ''blue'' \<rparr>]"
        and dims = "\<lparr> radius = Fin 50, innerRadius = Fin 25, width = Fin 25, dividerSize = Fin 0 \<rparr>"
        and painted = "[]" and rnd = True and cap = "''round''"
        and ps = "\<lparr> p_sections = Some [Some \<lparr> s_percentage = JNum (Fin 50), s_color = Some ''red'' \<rparr>,
                          Some \<lparr> s_percentage = JNum (Fin 50), s_color = Some ''blue'' \<rparr>],
                p_radius = Some (Fin 50), p_innerRadius = Some (Fin 25),
                p_backgroundColor = Some ''#fff'', p_strokeCap = Some ''butt'',
                p_dividerSize = None, p_showCenterText = None, p_centerValue = None,
                p_centerLabel = None \<rparr>"
        and d = "\<lparr> radius = Fin 50, innerRadius = Fin 25, width = Fin 25, dividerSize = Fin 0 \<rparr>"]
    by (simp add: d0 jsum_def eval_Sections) blast
qed

subsection \<open>Invalid entries\<close>

lemma Sections_drop_invalid:
  assumes "\<not> isValidSection e"
  shows "Sections dims painted (Some (xs @ e # ys)) rnd cap =
         Sections dims painted (Some (xs @ ys)) rnd cap"
proof -
  from assms have "filter isValidSection (xs @ e # ys) = filter isValidSection (xs @ ys)"
    by simp
  then show ?thesis
    using Sections_filter [of dims painted "xs @ e # ys" rnd cap]
          Sections_filter [of dims painted "xs @ ys" rnd cap]
    by simp
qed

lemma Pie_sections_cong:
  assumes "\<And>dims painted rnd cap.
      Sections dims painted (p_sections ps) rnd cap = Sections dims painted (p_sections ps') rnd cap"
    and "p_radius ps = p_radius ps'" "p_innerRadius ps = p_innerRadius ps'"
      "p_dividerSize ps = p_dividerSize ps'" "p_backgroundColor ps = p_backgroundColor ps'"
      "p_strokeCap ps = p_strokeCap ps'" "p_showCenterText ps = p_showCenterText ps'"
      "p_centerValue ps = p_centerValue ps'" "p_centerLabel ps = p_centerLabel ps'"
  shows "Pie ps = Pie ps'"
  unfolding Pie_def assms by (rule refl)

text \<open>
  C6. An entry whose percentage is not a number, is \<open>NaN\<close> or is \<open>\<le> 0\<close>, or whose
  colour is missing, does not pass the filter, and removing it from the array changes
  nothing: \<open>Sections\<close> returns the same arcs (with the same keys and start angles) and
  the same \<open>paintedSections\<close>, and the whole render of \<open>Pie\<close> is the same. So the
  entry draws nothing and adds nothing to the running start angle.
\<close>

theorem invalid_section_discarded:
  assumes "e = Some s"
    and "\<not> typeof_number (s_percentage s) \<or> isNaN (numberOf (s_percentage s))
         \<or> jle (numberOf (s_percentage s)) (Fin 0) \<or> s_color s = None"
  shows "\<not> isValidSection e \<and>
         Sections dims painted (Some (xs @ e # ys)) rnd cap =
           Sections dims painted (Some (xs @ ys)) rnd cap \<and>
         Pie (ps\<lparr> p_sections := Some (xs @ e # ys) \<rparr>) = Pie (ps\<lparr> p_sections := Some (xs @ ys) \<rparr>)"
proof -
  have "jle p (Fin 0) \<Longrightarrow> \<not> jgt p (Fin 0)" for p
    by (cases p) (simp_all add: jgt_def)
  with assms have inv: "\<not> isValidSection e" by auto
  have "Pie (ps\<lparr> p_sections := Some (xs @ e # ys) \<rparr>) = Pie (ps\<lparr> p_sections := Some (xs @ ys) \<rparr>)"
    by (rule Pie_sections_cong) (simp_all add: Sections_drop_invalid [OF inv])
  with inv Sections_drop_invalid [OF inv] show ?thesis by simp
qed

theorem invalid_section_discarded_witness:
  "Sections (Pie_dimensions (Some (Fin 50)) None None) []
      (Some [Some \<lparr> s_percentage = JNum (Fin (- 5)), s_color = Some ''red'' \<rparr>,
             Some \<lparr> s_percentage = JNum (Fin 50), s_color = Some ''blue'' \<rparr>]) False ''butt'' =
    Sections (Pie_dimensions (Some (Fin 50)) None None) []
      (Some [Some \<lparr> s_percentage = JNum (Fin 50), s_color = Some ''blue'' \<rparr>]) False ''butt'' \<and>
   Sections (Pie_dimensions (Some (Fin 50)) None None) []
      (Some [Some \<lparr> s_percentage = JNum (Fin 50), s_color = Some ''blue'' \<rparr>]) False ''butt'' =
     (Some [\<lparr> ap_key = Idx 0, ap_dimensions = Pie_dimensions (Some (Fin 50)) None None,
               ap_color = Some ''blue'', ap_startAngle = Fin 0, ap_arcAngle = Fin 180,
               ap_isBezian = False, ap_strokeCap = Some ''butt'' \<rparr>], [])"
  using invalid_section_discarded [of "Some \<lparr> s_percentage = JNum (Fin (- 5)), s_color = Some ''red'' \<rparr>"
      "\<lparr> s_percentage = JNum (Fin (- 5)), s_color = Some ''red'' \<rparr>"
      "Pie_dimensions (Some (Fin 50)) None None" "[]" "[]"
      "[Some \<lparr> s_percentage = JNum (Fin 50), s_color = Some ''blue'' \<rparr>]" False "''butt''"]
  by (simp add: Sections_def Let_def shouldShowDivider_def getArcAngle_Fin
        arcPropsOf_def filter_Boolean_def jgt_def)

subsection \<open>The sum of the spans\<close>

lemma preShrinkSpans_index:
  "map (arcAngleAt xs) (filter (drawnAt xs) [0..<length xs]) =
     filter (\<lambda>a. \<not> jlt a (Fin 0.1)) (map (\<lambda>s. getArcAngle (percentageOf s)) xs)"
proof -
  have "map (\<lambda>s. getArcAngle (percentageOf s)) xs = map (arcAngleAt xs) [0..<length xs]"
    by (rule nth_equalityI) (simp_all add: arcAngleAt_def)
  moreover have "drawnAt xs = (\<lambda>i. \<not> jlt (arcAngleAt xs i) (Fin 0.1))"
    by (rule ext) (simp add: drawnAt_def)
  ultimately show ?thesis by (simp add: filter_map o_def)
qed

lemma Sections_painted_spans:
  "map ps_arcAngle (snd (Sections dims [] (Some xs) True cap)) = preShrinkSpans xs"
proof (cases "filter isValidSection xs = []")
  case True
  then show ?thesis by (simp add: Sections_invalid preShrinkSpans_def)
next
  case False
  show ?thesis
    by (simp add: Sections_valid [OF False] o_def paintedOf_def preShrinkSpans_def
        preShrinkSpans_index [symmetric])
qed

lemma Sections_arc_spans:
  assumes "fst (Sections dims painted (Some xs) rnd cap) = Some arcs"
    and "\<not> shouldShowDivider (filter isValidSection xs) (dividerSize dims)"
  shows "map ap_arcAngle arcs = preShrinkSpans xs"
proof (cases "filter isValidSection xs = []")
  case True
  with assms show ?thesis by (simp add: Sections_invalid)
next
  case False
  from assms show ?thesis
    by (auto simp: Sections_valid [OF False] o_def arcPropsOf_def preShrinkSpans_def
        preShrinkSpans_index [symmetric])
qed

lemma getArcAngle_le_360: "jle (getArcAngle p) (Fin 360)"
  by (cases p) (simp_all add: getArcAngle_Fin getArcAngle_not_Fin)

lemma foldl_jadd_Fin: "foldl jadd (Fin a) (map Fin ws) = Fin (a + sum_list ws)"
  by (induction ws arbitrary: a) (simp_all add: add.assoc)

lemma jsum_Fin: "jsum (map Fin ws) = Fin (sum_list ws)"
  by (simp add: jsum_def foldl_jadd_Fin)

lemma getArcAngle_range: "\<exists>v. getArcAngle p = Fin v \<and> 0 \<le> v \<and> v \<le> 360"
  by (cases p) (simp_all add: getArcAngle_Fin getArcAngle_not_Fin)

lemma preShrinkSpans_finite:
  "\<exists>ws. preShrinkSpans xs = map Fin ws \<and> (\<forall>w\<in>set ws. w \<le> 360)"
proof -
  have "\<exists>ws. filter P (map (\<lambda>s. getArcAngle (percentageOf s)) ys) = map Fin ws \<and>
          (\<forall>w\<in>set ws. w \<le> 360)" for P ys
  proof (induction ys)
    case Nil
    show ?case by simp
  next
    case (Cons y ys)
    then obtain ws where ws: "filter P (map (\<lambda>s. getArcAngle (percentageOf s)) ys) = map Fin ws"
      "\<forall>w\<in>set ws. w \<le> 360" by auto
    from getArcAngle_range [of "percentageOf y"] obtain v
      where v: "getArcAngle (percentageOf y) = Fin v" "v \<le> 360" by auto
    show ?case
    proof (cases "P (Fin v)")
      case True
      with ws v show ?thesis by (intro exI [of _ "v # ws"]) simp
    next
      case False
      with ws v show ?thesis by (intro exI [of _ ws]) simp
    qed
  qed
  then show ?thesis by (simp add: preShrinkSpans_def)
qed

lemma sum_list_le_360: "\<forall>w\<in>set ws. (w::real) \<le> 360 \<Longrightarrow> sum_list ws \<le> 360 * real (length ws)"
  by (induction ws) (auto simp: algebra_simps)

lemma preShrinkSpans_sum_le:
  "jle (jsum (preShrinkSpans xs)) (Fin (360 * real (length (preShrinkSpans xs))))"
proof -
  from preShrinkSpans_finite [of xs] obtain ws
    where ws: "preShrinkSpans xs = map Fin ws" "\<forall>w\<in>set ws. w \<le> 360" by auto
  from sum_list_le_360 [OF ws(2)] show ?thesis
    by (simp add: ws(1) jsum_Fin)
qed

text \<open>
  Two sections of \<open>60\<close> percent are both valid and both drawn, each with a span of
  \<open>216\<close>: the spans add up to \<open>432\<close>.
\<close>

theorem section_spans_exceed_360:
  "Sections \<lparr> radius = Fin 50, innerRadius = Fin 25, width = Fin 25, dividerSize = Fin 0 \<rparr> []
     (Some [Some \<lparr> s_percentage = JNum (Fin 60), s_color = Some ''red'' \<rparr>,
            Some \<lparr> s_percentage = JNum (Fin 60), s_color = Some ''blue'' \<rparr>]) True ''round'' =
     (Some [\<lparr> ap_key = Idx 0,
               ap_dimensions = \<lparr> radius = Fin 50, innerRadius = Fin 25, width = Fin 25,
                                  dividerSize = Fin 0 \<rparr>,
               ap_color = Some ''red'', ap_startAngle = Fin 0, ap_arcAngle = Fin 216,
               ap_isBezian = False, ap_strokeCap = Some ''round'' \<rparr>,
            \<lparr> ap_key = Idx 1,
               ap_dimensions = \<lparr> radius = Fin 50, innerRadius = Fin 25, width = Fin 25,
                                  dividerSize = Fin 0 \<rparr>,
               ap_color = Some ''blue'', ap_startAngle = Fin 216, ap_arcAngle = Fin 216,
               ap_isBezian = False, ap_strokeCap = Some ''round'' \<rparr>],
      [\<lparr> ps_percentage = Fin 60, ps_color = ''red'', ps_startAngle = Fin 0,
          ps_arcAngle = Fin 216 \<rparr>,
       \<lparr> ps_percentage = Fin 60, ps_color = ''blue'', ps_startAngle = Fin 216,
          ps_arcAngle = Fin 216 \<rparr>]) \<and>
   preShrinkSpans [Some \<lparr> s_percentage = JNum (Fin 60), s_color = Some ''red'' \<rparr>,
                   Some \<lparr> s_percentage = JNum (Fin 60), s_color = Some ''blue'' \<rparr>]
     = [Fin 216, Fin 216] \<and>
   jsum [Fin 216, Fin 216] = Fin 432 \<and>
   \<not> jle (jsum [Fin 216, Fin 216]) (Fin 360)"
  by (simp add: eval_Sections preShrinkSpans_def jsum_def)

text \<open>
  C2, amended. The spans of the rendered sections before the divider shrink are the
  arc angles that \<open>Sections\<close> pushes to \<open>paintedSections\<close> under round caps, and
  the arc angles of its arcs when no dividers are shown. Each of them is between
  \<open>0.1\<close> and \<open>360\<close>, so the sum over \<open>n\<close> rendered sections never exceeds
  \<open>360 * n\<close>; nothing bounds it by \<open>360\<close>.
\<close>

theorem section_spans_bounded:
  "map ps_arcAngle (snd (Sections dims [] (Some xs) True cap)) = preShrinkSpans xs \<and>
   (fst (Sections dims painted (Some xs) rnd cap') = Some arcs \<and>
    \<not> shouldShowDivider (filter isValidSection xs) (dividerSize dims)
      \<longrightarrow> map ap_arcAngle arcs = preShrinkSpans xs) \<and>
   (\<forall>a\<in>set (preShrinkSpans xs). jle a (Fin 360) \<and> jge a (Fin 0.1)) \<and>
   jle (jsum (preShrinkSpans xs)) (Fin (360 * real (length (preShrinkSpans xs))))"
proof (intro conjI impI ballI)
  show "map ps_arcAngle (snd (Sections dims [] (Some xs) True cap)) = preShrinkSpans xs"
    by (rule Sections_painted_spans)
next
  assume "fst (Sections dims painted (Some xs) rnd cap') = Some arcs \<and>
    \<not> shouldShowDivider (filter isValidSection xs) (dividerSize dims)"
  then show "map ap_arcAngle arcs = preShrinkSpans xs"
    using Sections_arc_spans by blast
next
  fix a assume "a \<in> set (preShrinkSpans xs)"
  then obtain p where a: "a = getArcAngle p" "\<not> jlt a (Fin 0.1)"
    by (auto simp: preShrinkSpans_def)
  then show "jle a (Fin 360)" by (simp add: getArcAngle_le_360)
  from a show "jge a (Fin 0.1)"
    by (cases p) (auto simp: getArcAngle_Fin getArcAngle_not_Fin jge_def)
next
  show "jle (jsum (preShrinkSpans xs)) (Fin (360 * real (length (preShrinkSpans xs))))"
    by (rule preShrinkSpans_sum_le)
qed

theorem section_spans_bounded_witness:
  "preShrinkSpans
      [Some \<lparr> s_percentage = JNum (Fin 60), s_color = Some ''red'' \<rparr>,
       Some \<lparr> s_percentage = JStr ''x'', s_color = Some ''green'' \<rparr>,
       Some \<lparr> s_percentage = JNum (Fin 250), s_color = Some ''blue'' \<rparr>] = [Fin 216, Fin 360] \<and>
   jle (Fin 216) (Fin 360) \<and> jge (Fin 216) (Fin 0.1) \<and>
   jsum [Fin 216, Fin 360] = Fin 576 \<and>
   jle (Fin 576) (Fin (360 * 2))"
  using section_spans_bounded [of
      "\<lparr> radius = Fin 50, innerRadius = Fin 25, width = Fin 25, dividerSize = Fin 0 \<rparr>"
      "[Some \<lparr> s_percentage = JNum (Fin 60), s_color = Some ''red'' \<rparr>,
       Some \<lparr> s_percentage = JStr ''x'', s_color = Some ''green'' \<rparr>,
       Some \<lparr> s_percentage = JNum (Fin 250), s_color = Some ''blue'' \<rparr>]" "''round''" "[]" False "''butt''" "[]"]
  by (simp add: eval_Sections preShrinkSpans_def jsum_def)


section \<open>Properties of a render\<close>

lemma Sections_dims:
  assumes "fst (Sections dims painted secs rnd cap) = Some arcs" and "e \<in> set arcs"
  shows "ap_dimensions e = dims"
proof (cases secs)
  case None
  with assms show ?thesis by (simp add: Sections_None)
next
  case (Some xs)
  show ?thesis
  proof (cases "filter isValidSection xs = []")
    case True
    with assms Some show ?thesis by (simp add: Sections_invalid)
  next
    case False
    from assms show ?thesis
      unfolding Some Sections_valid [OF False] by (auto simp: arcPropsOf_def)
  qed
qed

lemma dividerArcs_dims:
  assumes "dividerArcs dims bg off sec index = Inr arcs" and "e \<in> set arcs"
  shows "ap_dimensions e = dims"
  using assms
  by (auto simp: dividerArcs_def split: if_splits sum.splits)

lemma flatMapDividers_dims:
  assumes "flatMapDividers dims bg off painted index = Inr arcs" and "e \<in> set arcs"
  shows "ap_dimensions e = dims"
  using assms
proof (induction painted arbitrary: index arcs)
  case Nil
  then show ?case by simp
next
  case (Cons sec rest)
  then show ?case
    by (auto split: sum.splits dest: dividerArcs_dims)
qed

lemma RoundDividers_dims:
  assumes "RoundDividers dims painted bg visible = Inr (Some arcs)" and "e \<in> set arcs"
  shows "ap_dimensions e = dims"
  using assms
  by (auto simp: RoundDividers_def Let_def split: if_splits sum.splits dest: flatMapDividers_dims)

lemma Pie_Inr:
  assumes "Pie ps = Inr out"
  shows "\<exists>painted. 
     svg_background out = Background (Pie_dimensions (p_radius ps) (p_innerRadius ps) (p_dividerSize ps))
                             (p_backgroundColor ps) \<and>
     svg_sections out = fst (Sections (Pie_dimensions (p_radius ps) (p_innerRadius ps) (p_dividerSize ps))
                               [] (p_sections ps) (p_strokeCap ps = Some ''round'')
                               (if p_strokeCap ps = Some ''round'' then ''round'' else ''butt'')) \<and>
     RoundDividers (Pie_dimensions (p_radius ps) (p_innerRadius ps) (p_dividerSize ps)) painted
        (p_backgroundColor ps) (p_strokeCap ps = Some ''round'') = Inr (svg_dividers out) \<and>
     svg_cleanup out = CleanUpCircles (Pie_dimensions (p_radius ps) (p_innerRadius ps) (p_dividerSize ps))
                         (p_backgroundColor ps) (p_strokeCap ps = Some ''round'')"
  using assms
  by (auto simp: Pie_def Let_def split: prod.splits sum.splits)

lemma stroke_radius_finite:
  assumes "rad \<noteq> Some PInf" and "d = Pie_dimensions rad inner dsize"
  shows "\<exists>R I. radius d = Fin R \<and> innerRadius d = Fin I \<and>
           jsub (radius d) (jdiv (width d) (Fin 2)) = Fin ((R + I) / 2) \<and> 5 \<le> (R + I) / 2"
proof -
  from Pie_dimensions_finite [OF assms(1), of inner dsize] assms(2) obtain R I
    where *: "10 \<le> R" "0 \<le> I" "I \<le> R - 1" "radius d = Fin R" "innerRadius d = Fin I"
      "width d = Fin (R - I)" by auto
  have "R - (R - I) / 2 = (R + I) / 2" by (simp add: field_simps)
  with * show ?thesis by (simp add: jsub_def)
qed


subsection \<open>The guards of ArcShape\<close>

text \<open>
  With \<open>radius = Infinity\<close> the width is infinite and the stroke radius
  \<open>radius - width / 2\<close> is \<open>NaN\<close>: it is neither equal to
  \<open>(radius + innerRadius) / 2\<close>, which is \<open>Infinity\<close>, nor \<open>\<ge> 5\<close>.
\<close>

theorem stroke_radius_infinite:
  "Pie_dimensions (Some PInf) None None =
     \<lparr> radius = PInf, innerRadius = Fin 0, width = PInf, dividerSize = Fin 0 \<rparr> \<and>
   jsub (radius (Pie_dimensions (Some PInf) None None))
        (jdiv (width (Pie_dimensions (Some PInf) None None)) (Fin 2)) = NaN \<and>
   jdiv (jadd (radius (Pie_dimensions (Some PInf) None None))
              (innerRadius (Pie_dimensions (Some PInf) None None))) (Fin 2) = PInf \<and>
   \<not> jge NaN (Fin 5)"
  by (simp add: Pie_dimensions_def Let_def Math_min_def Math_max_def numOr_def jsub_def jge_def)

text \<open>
  C10, amended. For every render of \<open>Pie\<close> whose \<open>radius\<close> prop is not
  \<open>Infinity\<close> the normalized dimensions are finite and satisfy
  \<open>radius - width / 2 = (radius + innerRadius) / 2 \<ge> 5\<close>. For every \<open>radius\<close> and
  \<open>innerRadius\<close>, \<open>Infinity\<close> included, \<open>ArcShape\<close> on the dimensions of
  \<open>Pie\<close> takes neither of its guard branches, whatever its other props are; so in
  every render that completes the background is drawn and every section arc and
  every divider arc renders to a path.
\<close>

theorem Pie_arcs_never_degenerate:
  "(rad \<noteq> Some PInf \<and> d = Pie_dimensions rad inner dsize \<longrightarrow>
      (\<exists>R I. radius d = Fin R \<and> innerRadius d = Fin I \<and>
         jsub (radius d) (jdiv (width d) (Fin 2)) = Fin ((R + I) / 2) \<and> 5 \<le> (R + I) / 2)) \<and>
   ArcShape (Pie_dimensions rad inner dsize) color cap startAngle arcAngle isBezian \<noteq> None \<and>
   (Pie ps = Inr out \<longrightarrow>
      svg_background out \<noteq> None \<and>
      (\<forall>arcs e. svg_sections out = Some arcs \<and> e \<in> set arcs \<longrightarrow> renderArc e \<noteq> None) \<and>
      (\<forall>arcs e. svg_dividers out = Some arcs \<and> e \<in> set arcs \<longrightarrow> renderArc e \<noteq> None))"
proof (intro conjI impI allI)
  assume "rad \<noteq> Some PInf \<and> d = Pie_dimensions rad inner dsize"
  then show "\<exists>R I. radius d = Fin R \<and> innerRadius d = Fin I \<and>
         jsub (radius d) (jdiv (width d) (Fin 2)) = Fin ((R + I) / 2) \<and> 5 \<le> (R + I) / 2"
    using stroke_radius_finite by blast
next
  show "ArcShape (Pie_dimensions rad inner dsize) color cap startAngle arcAngle isBezian \<noteq> None"
    by (rule ArcShape_Pie_dimensions)
next
  assume "Pie ps = Inr out"
  from Pie_Inr [OF this] show "svg_background out \<noteq> None"
    by (auto simp: Background_def ArcShape_Pie_dimensions)
next
  fix arcs e
  assume "Pie ps = Inr out" and "svg_sections out = Some arcs \<and> e \<in> set arcs"
  with Pie_Inr [of ps out] Sections_dims [of _ _ _ _ _ arcs e]
  have "ap_dimensions e = Pie_dimensions (p_radius ps) (p_innerRadius ps) (p_dividerSize ps)"
    by auto
  then show "renderArc e \<noteq> None"
    by (simp add: renderArc_def ArcShape_Pie_dimensions)
next
  fix arcs e
  assume "Pie ps = Inr out" and "svg_dividers out = Some arcs \<and> e \<in> set arcs"
  with Pie_Inr [of ps out] RoundDividers_dims [of _ _ _ _ arcs e]
  have "ap_dimensions e = Pie_dimensions (p_radius ps) (p_innerRadius ps) (p_dividerSize ps)"
    by auto
  then show "renderArc e \<noteq> None"
    by (simp add: renderArc_def ArcShape_Pie_dimensions)
qed

text \<open>The render with no sections and round caps, used below.\<close>

lemma Pie_no_sections_round:
  "Pie \<lparr> p_sections = Some [], p_radius = Some (Fin 50), p_innerRadius = Some (Fin 25),
         p_backgroundColor = Some ''#fff'', p_strokeCap = Some ''round'',
         p_dividerSize = None, p_showCenterText = None, p_centerValue = None,
         p_centerLabel = None \<rparr> =
   Inr \<lparr> svg_width = Fin 100, svg_height = Fin 100,
         svg_background =
           Background \<lparr> radius = Fin 50, innerRadius = Fin 25, width = Fin 25,
                        dividerSize = Fin 0 \<rparr> (Some ''#fff''),
         svg_sections = None, svg_dividers = None,
         svg_cleanup =
           CleanUpCircles \<lparr> radius = Fin 50, innerRadius = Fin 25, width = Fin 25,
                            dividerSize = Fin 0 \<rparr> (Some ''#fff'') True,
         svg_centerText = None \<rparr>"
  by (simp add: Pie_def Pie_dimensions_def RoundDividers_def eval_Sections)

theorem Pie_arcs_never_degenerate_witness:
  "jsub (radius (Pie_dimensions (Some (Fin 50)) (Some (Fin 25)) None))
        (jdiv (width (Pie_dimensions (Some (Fin 50)) (Some (Fin 25)) None)) (Fin 2)) = Fin 37.5 \<and>
   ArcShape (Pie_dimensions (Some (Fin 50)) (Some (Fin 25)) None) (Some ''red'') (Some ''butt'')
     (Fin 0) (Fin 180) False \<noteq> None \<and>
   svg_background (projr (Pie \<lparr> p_sections = Some [], p_radius = Some (Fin 50), p_innerRadius = Some (Fin 25),
         p_backgroundColor = Some ''#fff'', p_strokeCap = Some ''round'',
         p_dividerSize = None, p_showCenterText = None, p_centerValue = None,
         p_centerLabel = None \<rparr>)) \<noteq> None"
  using Pie_arcs_never_degenerate [where rad = "Some (Fin 50)" and inner = "Some (Fin 25)"
      and dsize = None and d = "Pie_dimensions (Some (Fin 50)) (Some (Fin 25)) None"
      and color = "Some ''red''" and cap = "Some ''butt''" and startAngle = "Fin 0"
      and arcAngle = "Fin 180" and isBezian = False
      and ps = "\<lparr> p_sections = Some [], p_radius = Some (Fin 50), p_innerRadius = Some (Fin 25),
         p_backgroundColor = Some ''#fff'', p_strokeCap = Some ''round'',
         p_dividerSize = None, p_showCenterText = None, p_centerValue = None,
         p_centerLabel = None \<rparr>"
      and out = "projr (Pie \<lparr> p_sections = Some [], p_radius = Some (Fin 50), p_innerRadius = Some (Fin 25),
         p_backgroundColor = Some ''#fff'', p_strokeCap = Some ''round'',
         p_dividerSize = None, p_showCenterText = None, p_centerValue = None,
         p_centerLabel = None \<rparr>)"]
  by (simp add: Pie_no_sections_round)
     (simp add: Pie_dimensions_def Let_def Math_min_def Math_max_def numOr_def jsub_def)

subsection \<open>Cleanup circles\<close>

lemma CleanUpCircles_ignores_dividerSize:
  "CleanUpCircles (Pie_dimensions rad inner dsize) bg visible =
   CleanUpCircles (Pie_dimensions rad inner None) bg visible"
  by (simp add: CleanUpCircles_def Pie_dimensions_def Let_def)

lemma Pie_dimensions_truthy:
  "truthy (radius (Pie_dimensions rad inner dsize)) \<and>
   (truthy (innerRadius (Pie_dimensions rad inner dsize)) \<longleftrightarrow>
      innerRadius (Pie_dimensions rad inner dsize) \<noteq> Fin 0)"
proof (cases "rad = Some PInf")
  case False
  from Pie_dimensions_finite [OF this, of inner dsize] show ?thesis by auto
next
  case True
  with Pie_dimensions_infinite [of inner dsize] validInnerRadius_cases [of inner]
  show ?thesis by auto
qed

text \<open>
  With round caps, no sections and no divider size the divider renderer returns
  \<open>null\<close>, and the two cleanup circles are drawn all the same. With round caps, two
  sections and a divider size of \<open>1\<close> the divider renderer draws its twelve arcs, the
  stroke width is \<open>50\<close>, and the cleanup circles are skipped because the inner radius
  is \<open>0\<close>.
\<close>

theorem cleanup_without_dividers:
  "Pie \<lparr> p_sections = Some [], p_radius = Some (Fin 50), p_innerRadius = Some (Fin 25),
         p_backgroundColor = Some ''#fff'', p_strokeCap = Some ''round'',
         p_dividerSize = None, p_showCenterText = None, p_centerValue = None,
         p_centerLabel = None \<rparr> =
   Inr \<lparr> svg_width = Fin 100, svg_height = Fin 100,
         svg_background =
           Background \<lparr> radius = Fin 50, innerRadius = Fin 25, width = Fin 25,
                        dividerSize = Fin 0 \<rparr> (Some ''#fff''),
         svg_sections = None, svg_dividers = None,
         svg_cleanup =
           Some (\<lparr> pe_d = [MoveTo (Fin 50) (Fin 37.5),
                           ArcTo (Fin 12.5) (Fin 12.5) 0 0 1 (Fin 50) (Fin 62.5),
                           ArcTo (Fin 12.5) (Fin 12.5) 0 0 1 (Fin 50) (Fin 37.5)],
                   pe_stroke = Some ''#fff'', pe_strokeWidth = Fin 25,
                   pe_strokeLinecap = None, pe_fill = ''none'' \<rparr>,
                 \<lparr> pe_d = [MoveTo (Fin 50) (Fin (- 12.5)),
                           ArcTo (Fin 62.5) (Fin 62.5) 0 0 1 (Fin 50) (Fin 112.5),
                           ArcTo (Fin 62.5) (Fin 62.5) 0 0 1 (Fin 50) (Fin (- 12.5))],
                   pe_stroke = Some ''#fff'', pe_strokeWidth = Fin 25,
                   pe_strokeLinecap = None, pe_fill = ''none'' \<rparr>),
         svg_centerText = None \<rparr> \<and>
   Pie_dimensions (Some (Fin 50)) None (Some (Fin 1)) =
     \<lparr> radius = Fin 50, innerRadius = Fin 0, width = Fin 50, dividerSize = Fin 1 \<rparr> \<and>
   \<not> jge (Fin 50) (Fin 100) \<and>
   \<not> isl (Pie \<lparr> p_sections = Some [Some \<lparr> s_percentage = JNum (Fin 50), s_color = Some ''red'' \<rparr>,
                          Some \<lparr> s_percentage = JNum (Fin 50), s_color = Some ''blue'' \<rparr>],
         p_radius = Some (Fin 50), p_innerRadius = None,
         p_backgroundColor = Some ''#fff'', p_strokeCap = Some ''round'',
         p_dividerSize = Some (Fin 1), p_showCenterText = None, p_centerValue = None,
         p_centerLabel = None \<rparr>) \<and>
   map_option length (svg_dividers (projr (Pie \<lparr> p_sections = Some [Some \<lparr> s_percentage = JNum (Fin 50), s_color = Some ''red'' \<rparr>,
                          Some \<lparr> s_percentage = JNum (Fin 50), s_color = Some ''blue'' \<rparr>],
         p_radius = Some (Fin 50), p_innerRadius = None,
         p_backgroundColor = Some ''#fff'', p_strokeCap = Some ''round'',
         p_dividerSize = Some (Fin 1), p_showCenterText = None, p_centerValue = None,
         p_centerLabel = None \<rparr>))) = Some 12 \<and>
   svg_cleanup (projr (Pie \<lparr> p_sections = Some [Some \<lparr> s_percentage = JNum (Fin 50), s_color = Some ''red'' \<rparr>,
                          Some \<lparr> s_percentage = JNum (Fin 50), s_color = Some ''blue'' \<rparr>],
         p_radius = Some (Fin 50), p_innerRadius = None,
         p_backgroundColor = Some ''#fff'', p_strokeCap = Some ''round'',
         p_dividerSize = Some (Fin 1), p_showCenterText = None, p_centerValue = None,
         p_centerLabel = None \<rparr>)) = None"
  by (simp add: Pie_def Pie_dimensions_def RoundDividers_def CleanUpCircles_def describeArc_def
      polarToCartesian_top polarToCartesian_bottom eval_Sections dividerArcs_def Array_keys_def
      numeral_3_eq_3)
text \<open>
  A render can fail: with round caps, two sections and a divider size of \<open>0.5\<close> the
  divider renderer calls \<open>Array(2.5)\<close>, which throws, and nothing is drawn.
\<close>

lemma Pie_fractional_divider_throws:
  "Pie \<lparr> p_sections = Some [Some \<lparr> s_percentage = JNum (Fin 50), s_color = Some ''red'' \<rparr>,
                            Some \<lparr> s_percentage = JNum (Fin 50), s_color = Some ''blue'' \<rparr>],
         p_radius = Some (Fin 50), p_innerRadius = Some (Fin 25),
         p_backgroundColor = Some ''#fff'', p_strokeCap = Some ''round'',
         p_dividerSize = Some (Fin 0.5), p_showCenterText = None, p_centerValue = None,
         p_centerLabel = None \<rparr> = Inl RangeError"
  by (simp add: Pie_def Pie_dimensions_def RoundDividers_def eval_Sections dividerArcs_def
      Array_keys_def)

text \<open>
  C8, amended. \<open>CleanUpCircles\<close> returns its two circles exactly when round caps are
  requested, the stroke width is not \<open>\<ge> 100\<close> and the normalized inner radius is
  not \<open>0\<close>; its result depends on the \<open>radius\<close>, \<open>innerRadius\<close>,
  \<open>backgroundColor\<close> and \<open>strokeCap\<close> props only, not on the sections or the
  divider size on which the divider renderer depends. A render that completes draws
  what \<open>CleanUpCircles\<close> returns, so the circles are drawn exactly when that
  condition holds and the render does not end in the \<open>RangeError\<close> of the divider
  renderer.
\<close>

theorem cleanup_activation:
  assumes "d = Pie_dimensions (p_radius ps) (p_innerRadius ps) (p_dividerSize ps)"
    and "visible = (p_strokeCap ps = Some ''round'')"
  shows "(CleanUpCircles d (p_backgroundColor ps) visible \<noteq> None \<longleftrightarrow>
            p_strokeCap ps = Some ''round'' \<and> \<not> jge (width d) (Fin 100) \<and> innerRadius d \<noteq> Fin 0) \<and>
         CleanUpCircles d (p_backgroundColor ps) visible =
           CleanUpCircles (Pie_dimensions (p_radius ps) (p_innerRadius ps) None)
             (p_backgroundColor ps) visible \<and>
         (\<forall>out. Pie ps = Inr out \<longrightarrow>
            svg_cleanup out = CleanUpCircles d (p_backgroundColor ps) visible) \<and>
         ((\<exists>out. Pie ps = Inr out \<and> svg_cleanup out \<noteq> None) \<longleftrightarrow>
            p_strokeCap ps = Some ''round'' \<and> \<not> jge (width d) (Fin 100) \<and> innerRadius d \<noteq> Fin 0 \<and>
            Pie ps \<noteq> Inl RangeError)"
proof -
  from Pie_dimensions_truthy [of "p_radius ps" "p_innerRadius ps" "p_dividerSize ps"] assms(1)
  have t: "truthy (radius d)" "truthy (innerRadius d) \<longleftrightarrow> innerRadius d \<noteq> Fin 0" by simp_all
  have A: "CleanUpCircles d (p_backgroundColor ps) visible \<noteq> None \<longleftrightarrow>
            p_strokeCap ps = Some ''round'' \<and> \<not> jge (width d) (Fin 100) \<and> innerRadius d \<noteq> Fin 0"
    using t assms(2) by (auto simp: CleanUpCircles_def Let_def)
  have B: "CleanUpCircles d (p_backgroundColor ps) visible =
           CleanUpCircles (Pie_dimensions (p_radius ps) (p_innerRadius ps) None)
             (p_backgroundColor ps) visible"
    unfolding assms(1) by (rule CleanUpCircles_ignores_dividerSize)
  have C: "svg_cleanup out = CleanUpCircles d (p_backgroundColor ps) visible"
    if "Pie ps = Inr out" for out
    using Pie_Inr [OF that] assms by auto
  have E: "Pie ps \<noteq> Inl RangeError \<longleftrightarrow> (\<exists>out. Pie ps = Inr out)"
  proof (cases "Pie ps")
    case (Inl e)
    then show ?thesis by (cases e) simp
  next
    case (Inr out)
    then show ?thesis by simp
  qed
  have D: "(\<exists>out. Pie ps = Inr out \<and> svg_cleanup out \<noteq> None) \<longleftrightarrow>
            p_strokeCap ps = Some ''round'' \<and> \<not> jge (width d) (Fin 100) \<and> innerRadius d \<noteq> Fin 0 \<and>
            Pie ps \<noteq> Inl RangeError"
  proof
    assume "\<exists>out. Pie ps = Inr out \<and> svg_cleanup out \<noteq> None"
    then obtain out where o: "Pie ps = Inr out" "svg_cleanup out \<noteq> None" by blast
    from C [OF o(1)] o(2) have "CleanUpCircles d (p_backgroundColor ps) visible \<noteq> None"
      by simp
    with A o(1) show "p_strokeCap ps = Some ''round'' \<and> \<not> jge (width d) (Fin 100) \<and>
        innerRadius d \<noteq> Fin 0 \<and> Pie ps \<noteq> Inl RangeError" by simp
  next
    assume r: "p_strokeCap ps = Some ''round'' \<and> \<not> jge (width d) (Fin 100) \<and>
        innerRadius d \<noteq> Fin 0 \<and> Pie ps \<noteq> Inl RangeError"
    with E obtain out where o: "Pie ps = Inr out" by blast
    from r A have "CleanUpCircles d (p_backgroundColor ps) visible \<noteq> None" by blast
    with C [OF o] have "svg_cleanup out \<noteq> None" by simp
    with o show "\<exists>out. Pie ps = Inr out \<and> svg_cleanup out \<noteq> None" by blast
  qed
  from A B C D show ?thesis by blast
qed

theorem cleanup_activation_witness:
  "Pie \<lparr> p_sections = Some [], p_radius = Some (Fin 50), p_innerRadius = Some (Fin 25),
         p_backgroundColor = Some ''#fff'', p_strokeCap = Some ''round'',
         p_dividerSize = None, p_showCenterText = None, p_centerValue = None,
         p_centerLabel = None \<rparr> = Inr (projr (Pie \<lparr> p_sections = Some [], p_radius = Some (Fin 50), p_innerRadius = Some (Fin 25),
         p_backgroundColor = Some ''#fff'', p_strokeCap = Some ''round'',
         p_dividerSize = None, p_showCenterText = None, p_centerValue = None,
         p_centerLabel = None \<rparr>)) \<and>
   svg_cleanup (projr (Pie \<lparr> p_sections = Some [], p_radius = Some (Fin 50), p_innerRadius = Some (Fin 25),
         p_backgroundColor = Some ''#fff'', p_strokeCap = Some ''round'',
         p_dividerSize = None, p_showCenterText = None, p_centerValue = None,
         p_centerLabel = None \<rparr>)) \<noteq> None \<and>
   svg_cleanup (projr (Pie \<lparr> p_sections = Some [], p_radius = Some (Fin 50), p_innerRadius = Some (Fin 25),
         p_backgroundColor = Some ''#fff'', p_strokeCap = Some ''round'',
         p_dividerSize = None, p_showCenterText = None, p_centerValue = None,
         p_centerLabel = None \<rparr>)) =
     CleanUpCircles (Pie_dimensions (Some (Fin 50)) (Some (Fin 25)) None) (Some ''#fff'') True \<and>
   CleanUpCircles (Pie_dimensions (Some (Fin 50)) (Some (Fin 25)) (Some (Fin 0.5)))
     (Some ''#fff'') True \<noteq> None \<and>
   Pie \<lparr> p_sections = Some [Some \<lparr> s_percentage = JNum (Fin 50), s_color = Some ''red'' \<rparr>,
                            Some \<lparr> s_percentage = JNum (Fin 50), s_color = Some ''blue'' \<rparr>],
         p_radius = Some (Fin 50), p_innerRadius = Some (Fin 25),
         p_backgroundColor = Some ''#fff'', p_strokeCap = Some ''round'',
         p_dividerSize = Some (Fin 0.5), p_showCenterText = None, p_centerValue = None,
         p_centerLabel = None \<rparr> = Inl RangeError"
proof -
  have dA: "Pie_dimensions (Some (Fin 50)) (Some (Fin 25)) None =
      \<lparr> radius = Fin 50, innerRadius = Fin 25, width = Fin 25, dividerSize = Fin 0 \<rparr>"
    by (simp add: Pie_dimensions_def Let_def Math_max_def Math_min_def numOr_def jsub_def)
  have A: "Pie \<lparr> p_sections = Some [], p_radius = Some (Fin 50), p_innerRadius = Some (Fin 25),
         p_backgroundColor = Some ''#fff'', p_strokeCap = Some ''round'',
         p_dividerSize = None, p_showCenterText = None, p_centerValue = None,
         p_centerLabel = None \<rparr> = Inr (projr (Pie \<lparr> p_sections = Some [], p_radius = Some (Fin 50), p_innerRadius = Some (Fin 25),
         p_backgroundColor = Some ''#fff'', p_strokeCap = Some ''round'',
         p_dividerSize = None, p_showCenterText = None, p_centerValue = None,
         p_centerLabel = None \<rparr>))"
    by (simp add: Pie_no_sections_round)
  from cleanup_activation [where ps = "\<lparr> p_sections = Some [], p_radius = Some (Fin 50), p_innerRadius = Some (Fin 25),
         p_backgroundColor = Some ''#fff'', p_strokeCap = Some ''round'',
         p_dividerSize = None, p_showCenterText = None, p_centerValue = None,
         p_centerLabel = None \<rparr>" and visible = True
      and d = "Pie_dimensions (Some (Fin 50)) (Some (Fin 25)) None"]
  have "CleanUpCircles (Pie_dimensions (Some (Fin 50)) (Some (Fin 25)) None) (Some ''#fff'') True
          \<noteq> None"
    and "\<forall>out. Pie \<lparr> p_sections = Some [], p_radius = Some (Fin 50), p_innerRadius = Some (Fin 25),
         p_backgroundColor = Some ''#fff'', p_strokeCap = Some ''round'',
         p_dividerSize = None, p_showCenterText = None, p_centerValue = None,
         p_centerLabel = None \<rparr> = Inr out \<longrightarrow>
          svg_cleanup out =
            CleanUpCircles (Pie_dimensions (Some (Fin 50)) (Some (Fin 25)) None) (Some ''#fff'') True"
    by (simp_all add: dA jge_def)
  with A have B: "svg_cleanup (projr (Pie \<lparr> p_sections = Some [], p_radius = Some (Fin 50), p_innerRadius = Some (Fin 25),
         p_backgroundColor = Some ''#fff'', p_strokeCap = Some ''round'',
         p_dividerSize = None, p_showCenterText = None, p_centerValue = None,
         p_centerLabel = None \<rparr>)) \<noteq> None"
    and C: "svg_cleanup (projr (Pie \<lparr> p_sections = Some [], p_radius = Some (Fin 50), p_innerRadius = Some (Fin 25),
         p_backgroundColor = Some ''#fff'', p_strokeCap = Some ''round'',
         p_dividerSize = None, p_showCenterText = None, p_centerValue = None,
         p_centerLabel = None \<rparr>)) =
        CleanUpCircles (Pie_dimensions (Some (Fin 50)) (Some (Fin 25)) None) (Some ''#fff'') True"
    by metis+
  have D: "CleanUpCircles (Pie_dimensions (Some (Fin 50)) (Some (Fin 25)) (Some (Fin 0.5)))
     (Some ''#fff'') True \<noteq> None"
    by (simp add: CleanUpCircles_def jge_def Pie_dimensions_def Let_def Math_max_def Math_min_def
        numOr_def jsub_def)
  from A B C D Pie_fractional_divider_throws show ?thesis by blast
qed

end
